theory Spec2Isabelle
  imports Complex_Main "HOL-Library.AList"
begin

section \<open>Numbers\<close>

text \<open>
  Amounts are JavaScript numbers that the store keeps as decimal strings
  (\<^verbatim>\<open>newBalance.toString()\<close>, read back with \<^verbatim>\<open>parseFloat\<close>). They are modelled as
  exact rationals: \<^verbatim>\<open>parseFloat(x.toString())\<close> is \<open>x\<close>, and the binary rounding of
  IEEE doubles is not part of the model.
\<close>

type_synonym amount = rat

text \<open>\<^verbatim>\<open>Math.round(x)\<close>: the nearest integer, a tie going towards plus infinity.\<close>

definition Math_round :: "rat \<Rightarrow> int" where
  "Math_round x = \<lfloor>x + 1 / 2\<rfloor>"

text \<open>
  \<^verbatim>\<open>x.toFixed(2)\<close> read back as a number: the nearest multiple of 1/100, a tie going
  to the larger magnitude (the sign is split off first).
\<close>

definition toFixed2 :: "rat \<Rightarrow> rat" where
  "toFixed2 x =
     (if x < 0 then - (of_int \<lfloor>(- x) * 100 + 1 / 2\<rfloor> / 100)
      else of_int \<lfloor>x * 100 + 1 / 2\<rfloor> / 100)"

section \<open>Commission calculators\<close>

text \<open>
  The server's \<^verbatim>\<open>calculateCommission(amount, percentage, hasSubscription)\<close> of the
  routes module, the one the match handlers call.
\<close>

definition calculateCommission :: "rat \<Rightarrow> rat \<Rightarrow> bool \<Rightarrow> rat" where
  "calculateCommission amt percentage hasSubscription =
     (if amt \<le> 0 \<or> percentage \<le> 0 then 0
      else
        let adjustedPercentage =
              (if hasSubscription then percentage * (75 / 100) else percentage)
        in (amt * adjustedPercentage) / 100)"

text \<open>
  \<^verbatim>\<open>calculateGameCommission(prizePool, commissionPercentage, hasSubscription)\<close> of
  \<^verbatim>\<open>lib/utils/commission.ts\<close>: the same computation followed by
  \<^verbatim>\<open>Math.round(commission * 100) / 100\<close>.
\<close>

definition calculateGameCommission :: "rat \<Rightarrow> rat \<Rightarrow> bool \<Rightarrow> rat" where
  "calculateGameCommission prizePool commissionPercentage hasSubscription =
     (if prizePool \<le> 0 \<or> commissionPercentage \<le> 0 then 0
      else
        let adjustedCommissionPercentage =
              (if hasSubscription then commissionPercentage * (75 / 100)
               else commissionPercentage);
            commission = (prizePool * adjustedCommissionPercentage) / 100
        in of_int (Math_round (commission * 100)) / 100)"

text \<open>
  The banded helper \<^verbatim>\<open>calculateCommission(amount)\<close> of
  \<^verbatim>\<open>lib/utils/commission.ts\<close> (named apart from the server function here).
\<close>

definition calculateCommission_banded :: "rat \<Rightarrow> rat" where
  "calculateCommission_banded amt =
     (if amt \<le> 0 then 0
      else
        let commissionRate =
              (if amt > 1000 then 2 / 100
               else if amt > 500 then 225 / 10000
               else if amt < 100 then 3 / 100
               else 25 / 1000)
        in of_int (Math_round ((amt * commissionRate) * 100)) / 100)"

text \<open>
  The rounding the specification asks of the commission: the raw product
  \<open>prizePool * effectivePct / 100\<close> taken to two decimals, half up.
\<close>

definition round_half_up_cents :: "rat \<Rightarrow> rat" where
  "round_half_up_cents x = of_int \<lfloor>x * 100 + 1 / 2\<rfloor> / 100"

definition spec_commission :: "rat \<Rightarrow> rat \<Rightarrow> bool \<Rightarrow> rat" where
  "spec_commission prizePool pct hasDiscount =
     (if prizePool \<le> 0 \<or> pct \<le> 0 then 0
      else round_half_up_cents
             (prizePool * (if hasDiscount then pct * (75 / 100) else pct) / 100))"

section \<open>Realtime messaging: the bounded history\<close>

record message =
  m_id :: string
  m_sender :: nat
  m_senderName :: string
  m_content :: string
  m_timestamp :: nat
  m_roomId :: string

text \<open>The payload of a \<^verbatim>\<open>sendMessage\<close> event.\<close>

record send_data =
  content :: string
  sender :: nat
  senderName :: string
  roomId :: string

text \<open>\<^verbatim>\<open>messageHistory\<close>: a \<^verbatim>\<open>Map\<close> from room id to the array of its messages.\<close>

type_synonym messageHistory = "string \<rightharpoonup> message list"

text \<open>
  The message the handler builds; \<^verbatim>\<open>randomUUID()\<close> and \<^verbatim>\<open>new Date()\<close> are
  inputs from the environment.
\<close>

definition mkMessage :: "string \<Rightarrow> nat \<Rightarrow> send_data \<Rightarrow> message" where
  "mkMessage uuid now d =
     \<lparr> m_id = uuid, m_sender = sender d, m_senderName = senderName d,
       m_content = content d, m_timestamp = now, m_roomId = roomId d \<rparr>"

text \<open>
  \<^verbatim>\<open>socket.on('sendMessage', ...)\<close>: an empty content or room id returns at once;
  otherwise the message is stored, after one \<^verbatim>\<open>shift()\<close> when the history already
  holds 100 entries or more. The second component is the broadcast, if any.
\<close>

definition sendMessage ::
  "string \<Rightarrow> nat \<Rightarrow> send_data \<Rightarrow> messageHistory \<Rightarrow> messageHistory \<times> message option" where
  "sendMessage uuid now d mh =
     (if content d = [] \<or> roomId d = [] then (mh, None)
      else
        let msg = mkMessage uuid now d in
        (case mh (roomId d) of
           Some history \<Rightarrow>
             let history' = (if length history \<ge> 100 then tl history else history)
             in (mh(roomId d \<mapsto> history' @ [msg]), Some msg)
         | None \<Rightarrow> (mh(roomId d \<mapsto> [msg]), Some msg)))"

text \<open>\<^verbatim>\<open>socket.on('getMessageHistory', ...)\<close>: the stored array, or an empty one.\<close>

definition getMessageHistory :: "messageHistory \<Rightarrow> string \<Rightarrow> message list" where
  "getMessageHistory mh r = (case mh r of Some history \<Rightarrow> history | None \<Rightarrow> [])"

text \<open>A run of send events, each with its generated id and its time.\<close>

fun sendMessages :: "(string \<times> nat \<times> send_data) list \<Rightarrow> messageHistory \<Rightarrow> messageHistory" where
  "sendMessages [] mh = mh"
| "sendMessages ((uuid, now, d) # rest) mh = sendMessages rest (fst (sendMessage uuid now d mh))"

text \<open>The sends the handler accepts for room \<open>r\<close>, as the messages they produce.\<close>

definition accepted :: "string \<Rightarrow> (string \<times> nat \<times> send_data) list \<Rightarrow> message list" where
  "accepted r evs =
     map (\<lambda>(uuid, now, d). mkMessage uuid now d)
       (filter (\<lambda>(uuid, now, d). content d \<noteq> [] \<and> roomId d = r) evs)"

text \<open>The last \<open>n\<close> elements of a list.\<close>

definition lastN :: "nat \<Rightarrow> 'a list \<Rightarrow> 'a list" where
  "lastN n xs = drop (length xs - n) xs"

section \<open>The ledger store\<close>

text \<open>
  \<^verbatim>\<open>MemStorage\<close> keeps each table in a JavaScript \<^verbatim>\<open>Map\<close> keyed by a numeric id.
  A \<^verbatim>\<open>Map\<close> iterates in insertion order, and \<^verbatim>\<open>set\<close> replaces the value of a
  present key in place or appends a new entry: this is an association list with
  \<^const>\<open>AList.update\<close>; \<^verbatim>\<open>get\<close> is \<^const>\<open>map_of\<close> and \<^verbatim>\<open>values()\<close> is
  \<open>map snd\<close>.

  A \<^verbatim>\<open>Date\<close> is its number of milliseconds in local time; \<^verbatim>\<open>new Date()\<close> is an
  input \<open>now\<close> of each operation. Calendar days have 86400000 ms (no daylight-saving
  shifts). The free-text \<^verbatim>\<open>description\<close> and \<^verbatim>\<open>metadata\<close> of a transaction and the
  profile fields of a user, which no modelled operation reads, are left out.
\<close>

type_synonym date = int
type_synonym ('k, 'v) jsmap = "('k \<times> 'v) list"

definition day_ms :: int where
  "day_ms = 86400000"

text \<open>\<^verbatim>\<open>d.setDate(d.getDate() + k)\<close>\<close>

definition addDays :: "date \<Rightarrow> int \<Rightarrow> date" where
  "addDays d k = d + k * day_ms"

text \<open>\<^verbatim>\<open>d.setHours(0, 0, 0, 0)\<close>\<close>

definition startOfDay :: "date \<Rightarrow> date" where
  "startOfDay d = d - d mod day_ms"

datatype tx_type =
  deposit | withdrawal | game_entry | game_win | subscription_purchase
  | subscription_reward | referral_bonus | reward_redemption | tx_subscription

datatype tx_status = tx_pending | tx_completed | tx_failed

datatype match_status = waiting | in_progress | completed | cancelled

datatype player_status = joined | playing | left | won | lost

datatype sub_status = sub_active | sub_completed

datatype reward_status = pending | paid

record User =
  u_id :: nat
  u_username :: string
  u_hasSubscription :: bool
  u_subscriptionExpiryDate :: "date option"
  u_rewardPoints :: int

record Wallet =
  w_id :: nat
  w_userId :: nat
  w_balance :: amount
  w_createdAt :: date

record Transaction =
  t_id :: nat
  t_userId :: nat
  t_amount :: amount
  t_type :: tx_type
  t_status :: tx_status
  t_commissionAmount :: "amount option"
  t_createdAt :: date

record Game =
  g_id :: nat
  g_name :: string
  g_minEntry :: amount
  g_maxEntry :: amount
  g_commissionPercentage :: rat
  g_isActive :: bool

record GameMatch =
  gm_id :: nat
  gm_gameId :: nat
  gm_entryAmount :: amount
  gm_status :: match_status
  gm_winnerId :: "nat option"
  gm_startTime :: "date option"
  gm_endTime :: "date option"
  gm_createdAt :: date

record PlayerMatch =
  pm_id :: nat
  pm_matchId :: nat
  pm_userId :: nat
  pm_status :: player_status
  pm_createdAt :: date

record Subscription =
  sub_id :: nat
  sub_userId :: nat
  sub_name :: string
  sub_amount :: amount
  sub_rewardAmount :: amount
  sub_duration :: int
  sub_startDate :: date
  sub_endDate :: date
  sub_status :: sub_status
  sub_createdAt :: date

record SubscriptionReward =
  r_id :: nat
  r_subscriptionId :: nat
  r_userId :: nat
  r_amount :: amount
  r_day :: int
  r_status :: reward_status
  r_paidAt :: "date option"
  r_createdAt :: date

text \<open>\<^verbatim>\<open>InsertSubscriptionReward\<close>: a reward row before the store gives it an id.\<close>

record InsertSubscriptionReward =
  ir_subscriptionId :: nat
  ir_userId :: nat
  ir_amount :: amount
  ir_day :: int
  ir_status :: reward_status

record MemStorage =
  users :: "(nat, User) jsmap"
  wallets :: "(nat, Wallet) jsmap"
  transactions :: "(nat, Transaction) jsmap"
  games :: "(nat, Game) jsmap"
  gameMatches :: "(nat, GameMatch) jsmap"
  playerMatches :: "(nat, PlayerMatch) jsmap"
  subscriptions :: "(nat, Subscription) jsmap"
  subscriptionRewards :: "(nat, SubscriptionReward) jsmap"
  userIdCounter :: nat
  walletIdCounter :: nat
  transactionIdCounter :: nat
  gameIdCounter :: nat
  gameMatchIdCounter :: nat
  playerMatchIdCounter :: nat
  subscriptionIdCounter :: nat
  subscriptionRewardIdCounter :: nat

text \<open>The constructor, before \<^verbatim>\<open>seedGames\<close>.\<close>

definition emptyStorage :: MemStorage where
  "emptyStorage =
     \<lparr> users = [], wallets = [], transactions = [], games = [], gameMatches = [],
       playerMatches = [], subscriptions = [], subscriptionRewards = [],
       userIdCounter = 1, walletIdCounter = 1, transactionIdCounter = 1,
       gameIdCounter = 1, gameMatchIdCounter = 1, playerMatchIdCounter = 1,
       subscriptionIdCounter = 1, subscriptionRewardIdCounter = 1 \<rparr>"

subsection \<open>Users\<close>

text \<open>\<^verbatim>\<open>String.prototype.toLowerCase\<close> on the ASCII letters.\<close>

definition toLowerCase :: "string \<Rightarrow> string" where
  "toLowerCase =
     map (\<lambda>c. let n = (of_char c :: nat)
              in if 65 \<le> n \<and> n \<le> 90 then char_of (n + 32) else c)"

definition getUser :: "MemStorage \<Rightarrow> nat \<Rightarrow> User option" where
  "getUser s i = map_of (users s) i"

definition getUserByUsername :: "MemStorage \<Rightarrow> string \<Rightarrow> User option" where
  "getUserByUsername s username =
     find (\<lambda>user. toLowerCase (u_username user) = toLowerCase username) (map snd (users s))"

definition createUser :: "string \<Rightarrow> int \<Rightarrow> MemStorage \<Rightarrow> User \<times> MemStorage" where
  "createUser username rewardPoints s =
     (let i = userIdCounter s;
          user = \<lparr> u_id = i, u_username = username, u_hasSubscription = False,
                   u_subscriptionExpiryDate = None, u_rewardPoints = rewardPoints \<rparr>
      in (user, s\<lparr> users := AList.update i user (users s), userIdCounter := i + 1 \<rparr>))"

definition addRewardPoints :: "nat \<Rightarrow> int \<Rightarrow> MemStorage \<Rightarrow> User option \<times> MemStorage" where
  "addRewardPoints userId points s =
     (case map_of (users s) userId of
        None \<Rightarrow> (None, s)
      | Some user \<Rightarrow>
          let currentPoints = u_rewardPoints user;
              updatedPoints = currentPoints + points;
              updatedUser = user\<lparr> u_rewardPoints := updatedPoints \<rparr>
          in (Some updatedUser, s\<lparr> users := AList.update userId updatedUser (users s) \<rparr>))"

definition addSubscription :: "nat \<Rightarrow> int \<Rightarrow> date \<Rightarrow> MemStorage \<Rightarrow> User option \<times> MemStorage" where
  "addSubscription userId durationDays now s =
     (case map_of (users s) userId of
        None \<Rightarrow> (None, s)
      | Some user \<Rightarrow>
          let expiryDate =
                (case u_subscriptionExpiryDate user of
                   Some e \<Rightarrow>
                     if u_hasSubscription user \<and> e > now then addDays e durationDays
                     else addDays now durationDays
                 | None \<Rightarrow> addDays now durationDays);
              updatedUser = user\<lparr> u_hasSubscription := True,
                                   u_subscriptionExpiryDate := Some expiryDate \<rparr>
          in (Some updatedUser, s\<lparr> users := AList.update userId updatedUser (users s) \<rparr>))"

subsection \<open>Wallets\<close>

definition getWallet :: "MemStorage \<Rightarrow> nat \<Rightarrow> Wallet option" where
  "getWallet s userId = find (\<lambda>wallet. w_userId wallet = userId) (map snd (wallets s))"

definition createWallet :: "nat \<Rightarrow> amount \<Rightarrow> date \<Rightarrow> MemStorage \<Rightarrow> Wallet \<times> MemStorage" where
  "createWallet userId balance now s =
     (let i = walletIdCounter s;
          wallet = \<lparr> w_id = i, w_userId = userId, w_balance = balance, w_createdAt = now \<rparr>
      in (wallet, s\<lparr> wallets := AList.update i wallet (wallets s),
                      walletIdCounter := i + 1 \<rparr>))"

definition updateWalletBalance :: "nat \<Rightarrow> amount \<Rightarrow> MemStorage \<Rightarrow> Wallet option \<times> MemStorage" where
  "updateWalletBalance userId amt s =
     (case getWallet s userId of
        None \<Rightarrow> (None, s)
      | Some wallet \<Rightarrow>
          let currentBalance = w_balance wallet;
              newBalance = currentBalance + amt
          in if newBalance < 0 then (None, s)
             else
               let updatedWallet = wallet\<lparr> w_balance := newBalance \<rparr>
               in (Some updatedWallet,
                   s\<lparr> wallets := AList.update (w_id wallet) updatedWallet (wallets s) \<rparr>))"

subsection \<open>Transactions\<close>

definition createTransaction ::
  "nat \<Rightarrow> amount \<Rightarrow> tx_type \<Rightarrow> tx_status \<Rightarrow> amount option \<Rightarrow> date \<Rightarrow> MemStorage
   \<Rightarrow> Transaction \<times> MemStorage" where
  "createTransaction userId amt ty st commissionAmount now s =
     (let i = transactionIdCounter s;
          transaction = \<lparr> t_id = i, t_userId = userId, t_amount = amt, t_type = ty,
                          t_status = st, t_commissionAmount = commissionAmount,
                          t_createdAt = now \<rparr>
      in (transaction, s\<lparr> transactions := AList.update i transaction (transactions s),
                           transactionIdCounter := i + 1 \<rparr>))"

definition getAllTransactions :: "MemStorage \<Rightarrow> Transaction list" where
  "getAllTransactions s = map snd (transactions s)"

subsection \<open>Games, matches and players\<close>

definition getGame :: "MemStorage \<Rightarrow> nat \<Rightarrow> Game option" where
  "getGame s i = map_of (games s) i"

definition createGameMatch ::
  "nat \<Rightarrow> amount \<Rightarrow> match_status \<Rightarrow> date \<Rightarrow> MemStorage \<Rightarrow> GameMatch \<times> MemStorage" where
  "createGameMatch gameId entryAmount st now s =
     (let i = gameMatchIdCounter s;
          gmatch = \<lparr> gm_id = i, gm_gameId = gameId, gm_entryAmount = entryAmount,
                     gm_status = st, gm_winnerId = None, gm_startTime = None,
                     gm_endTime = None, gm_createdAt = now \<rparr>
      in (gmatch, s\<lparr> gameMatches := AList.update i gmatch (gameMatches s),
                      gameMatchIdCounter := i + 1 \<rparr>))"

definition getGameMatch :: "MemStorage \<Rightarrow> nat \<Rightarrow> GameMatch option" where
  "getGameMatch s i = map_of (gameMatches s) i"

text \<open>
  \<^verbatim>\<open>updateGameMatch(id, matchData)\<close> merges the given fields into the stored match:
  the partial object is the function \<open>matchData\<close> that overwrites them.
\<close>

definition updateGameMatch ::
  "nat \<Rightarrow> (GameMatch \<Rightarrow> GameMatch) \<Rightarrow> MemStorage \<Rightarrow> GameMatch option \<times> MemStorage" where
  "updateGameMatch i matchData s =
     (case map_of (gameMatches s) i of
        None \<Rightarrow> (None, s)
      | Some m \<Rightarrow>
          let updatedMatch = matchData m
          in (Some updatedMatch, s\<lparr> gameMatches := AList.update i updatedMatch (gameMatches s) \<rparr>))"

definition addPlayerToMatch ::
  "nat \<Rightarrow> nat \<Rightarrow> player_status \<Rightarrow> date \<Rightarrow> MemStorage \<Rightarrow> PlayerMatch \<times> MemStorage" where
  "addPlayerToMatch matchId userId st now s =
     (let i = playerMatchIdCounter s;
          playerMatch = \<lparr> pm_id = i, pm_matchId = matchId, pm_userId = userId,
                          pm_status = st, pm_createdAt = now \<rparr>
      in (playerMatch, s\<lparr> playerMatches := AList.update i playerMatch (playerMatches s),
                           playerMatchIdCounter := i + 1 \<rparr>))"

definition getMatchPlayers :: "MemStorage \<Rightarrow> nat \<Rightarrow> PlayerMatch list" where
  "getMatchPlayers s matchId =
     filter (\<lambda>playerMatch. pm_matchId playerMatch = matchId) (map snd (playerMatches s))"

definition updatePlayerMatchStatus ::
  "nat \<Rightarrow> player_status \<Rightarrow> MemStorage \<Rightarrow> PlayerMatch option \<times> MemStorage" where
  "updatePlayerMatchStatus i st s =
     (case map_of (playerMatches s) i of
        None \<Rightarrow> (None, s)
      | Some playerMatch \<Rightarrow>
          let updatedPlayerMatch = playerMatch\<lparr> pm_status := st \<rparr>
          in (Some updatedPlayerMatch,
              s\<lparr> playerMatches := AList.update i updatedPlayerMatch (playerMatches s) \<rparr>))"

subsection \<open>Subscriptions and their rewards\<close>

fun createSubscriptionRewards :: "InsertSubscriptionReward list \<Rightarrow> date \<Rightarrow> MemStorage \<Rightarrow> MemStorage" where
  "createSubscriptionRewards [] now s = s"
| "createSubscriptionRewards (insertReward # rest) now s =
     (let i = subscriptionRewardIdCounter s;
          reward = \<lparr> r_id = i, r_subscriptionId = ir_subscriptionId insertReward,
                     r_userId = ir_userId insertReward, r_amount = ir_amount insertReward,
                     r_day = ir_day insertReward, r_status = ir_status insertReward,
                     r_paidAt = None, r_createdAt = now \<rparr>
      in createSubscriptionRewards rest now
           (s\<lparr> subscriptionRewards := AList.update i reward (subscriptionRewards s),
               subscriptionRewardIdCounter := i + 1 \<rparr>))"

text \<open>
  \<^verbatim>\<open>createGameSubscription\<close> stores the subscription and then one reward for each
  \<^verbatim>\<open>day\<close> from 1 to \<^verbatim>\<open>duration\<close>, of amount
  \<^verbatim>\<open>(parseFloat(rewardAmount) / duration).toFixed(2)\<close>.
\<close>

definition createGameSubscription ::
  "nat \<Rightarrow> string \<Rightarrow> amount \<Rightarrow> amount \<Rightarrow> int \<Rightarrow> date \<Rightarrow> date \<Rightarrow> sub_status \<Rightarrow> date
   \<Rightarrow> MemStorage \<Rightarrow> Subscription \<times> MemStorage" where
  "createGameSubscription userId name amt rewardAmount duration startDate endDate st now s =
     (let i = subscriptionIdCounter s;
          subscription = \<lparr> sub_id = i, sub_userId = userId, sub_name = name,
                           sub_amount = amt, sub_rewardAmount = rewardAmount,
                           sub_duration = duration, sub_startDate = startDate,
                           sub_endDate = endDate, sub_status = st, sub_createdAt = now \<rparr>;
          s1 = s\<lparr> subscriptions := AList.update i subscription (subscriptions s),
                  subscriptionIdCounter := i + 1 \<rparr>;
          dailyRewardAmount = sub_rewardAmount subscription / of_int (sub_duration subscription);
          rewards = map (\<lambda>day. \<lparr> ir_subscriptionId = i, ir_userId = sub_userId subscription,
                                  ir_amount = toFixed2 dailyRewardAmount, ir_day = day,
                                  ir_status = pending \<rparr>)
                        [1 .. sub_duration subscription]
      in (subscription, createSubscriptionRewards rewards now s1))"

definition getPendingRewardsByDate :: "MemStorage \<Rightarrow> date \<Rightarrow> SubscriptionReward list" where
  "getPendingRewardsByDate s d =
     (let targetDate = startOfDay d
      in filter
           (\<lambda>reward.
              case map_of (subscriptions s) (r_subscriptionId reward) of
                None \<Rightarrow> False
              | Some subscription \<Rightarrow>
                  let rewardDate =
                        startOfDay (addDays (sub_startDate subscription) (r_day reward - 1))
                  in r_status reward = pending \<and> rewardDate = targetDate)
           (map snd (subscriptionRewards s)))"

definition updateRewardStatus ::
  "nat \<Rightarrow> reward_status \<Rightarrow> date option \<Rightarrow> date \<Rightarrow> MemStorage
   \<Rightarrow> SubscriptionReward option \<times> MemStorage" where
  "updateRewardStatus i st paidAt now s =
     (case map_of (subscriptionRewards s) i of
        None \<Rightarrow> (None, s)
      | Some reward \<Rightarrow>
          let updatedReward =
                reward\<lparr> r_status := st,
                        r_paidAt := (case paidAt of
                                       Some p \<Rightarrow> Some p
                                     | None \<Rightarrow> if st = paid then Some now else r_paidAt reward) \<rparr>
          in (Some updatedReward,
              s\<lparr> subscriptionRewards := AList.update i updatedReward (subscriptionRewards s) \<rparr>))"

section \<open>Request handlers\<close>

text \<open>
  Each handler takes the request's parameters, the clock and the store, and returns its
  response with the store it leaves. A response is \<open>Ok\<close> or the failure the handler
  answers with.
\<close>

datatype failure =
  MatchNotFound | MatchNotWaiting | NeedTwoPlayers | NotPartOfMatch | GameNotFound
  | PlayerNoWallet nat | PlayerLowBalance nat | MatchNotAccepting | AlreadyJoined
  | WalletNotFound | MinimumBalance | InsufficientFunds | MatchNotInProgress
  | WinnerNotPlayer | EntryOutOfRange | MinimumDeposit | DepositNotFound
  | WalletUpdateError | AmountNotPositive | InvalidAmount | InvalidRewardAmount
  | InvalidDuration | MinimumPoints | UserNotFound | InsufficientPoints
  | UsernameExists

datatype response = Ok | Fail failure

subsection \<open>Starting a match by request\<close>

text \<open>
  The loop of \<^verbatim>\<open>POST /api/matches/:id/start\<close> over the players: within one
  iteration the wallet is checked, debited and the \<^verbatim>\<open>game_entry\<close> transaction
  recorded; a failed check returns from the handler.
\<close>

fun startLoop :: "PlayerMatch list \<Rightarrow> amount \<Rightarrow> date \<Rightarrow> MemStorage \<Rightarrow> failure option \<times> MemStorage" where
  "startLoop [] entryAmount now s = (None, s)"
| "startLoop (player # rest) entryAmount now s =
     (case getWallet s (pm_userId player) of
        None \<Rightarrow> (Some (PlayerNoWallet (pm_userId player)), s)
      | Some wallet \<Rightarrow>
          if w_balance wallet < entryAmount
          then (Some (PlayerLowBalance (pm_userId player)), s)
          else
            let s1 = snd (updateWalletBalance (pm_userId player) (- entryAmount) s);
                s2 = snd (createTransaction (pm_userId player) (- entryAmount)
                            game_entry tx_completed (Some 0) now s1)
            in startLoop rest entryAmount now s2)"

definition startMatch :: "nat \<Rightarrow> nat \<Rightarrow> date \<Rightarrow> MemStorage \<Rightarrow> response \<times> MemStorage" where
  "startMatch matchId userId now s =
     (case getGameMatch s matchId of
        None \<Rightarrow> (Fail MatchNotFound, s)
      | Some gmatch \<Rightarrow>
          if gm_status gmatch \<noteq> waiting then (Fail MatchNotWaiting, s)
          else
            let players = getMatchPlayers s matchId
            in if length players < 2 then (Fail NeedTwoPlayers, s)
               else if \<not> list_ex (\<lambda>player. pm_userId player = userId) players
               then (Fail NotPartOfMatch, s)
               else
                 (case getGame s (gm_gameId gmatch) of
                    None \<Rightarrow> (Fail GameNotFound, s)
                  | Some game \<Rightarrow>
                      let entryAmount = gm_entryAmount gmatch
                      in (case startLoop players entryAmount now s of
                            (Some f, s1) \<Rightarrow> (Fail f, s1)
                          | (None, s1) \<Rightarrow>
                              (Ok, snd (updateGameMatch matchId
                                          (\<lambda>m. m\<lparr> gm_status := in_progress,
                                                  gm_startTime := Some now \<rparr>) s1)))))"

subsection \<open>Joining a match, and the timers it schedules\<close>

text \<open>
  What the \<^verbatim>\<open>setTimeout\<close> callback of the join handler closes over: the match as
  read when the request began, the player list read after the join, and the automated
  opponent's user.
\<close>

record start_timer =
  tm_matchId :: nat
  tm_gameId :: nat
  tm_entryAmount :: amount
  tm_players :: "PlayerMatch list"
  tm_aiPlayerId :: nat

text \<open>The inner callback also closes over the game its outer callback looked up.\<close>

record complete_timer =
  ct_timer :: start_timer
  ct_game :: "Game option"

definition joinMatch ::
  "nat \<Rightarrow> nat \<Rightarrow> date \<Rightarrow> MemStorage \<Rightarrow> response \<times> MemStorage \<times> start_timer option" where
  "joinMatch matchId userId now s =
     (case getGameMatch s matchId of
        None \<Rightarrow> (Fail MatchNotFound, s, None)
      | Some gmatch \<Rightarrow>
          if gm_status gmatch \<noteq> waiting then (Fail MatchNotAccepting, s, None)
          else
            let matchPlayers = getMatchPlayers s matchId
            in if list_ex (\<lambda>player. pm_userId player = userId) matchPlayers
               then (Fail AlreadyJoined, s, None)
               else
                 (case getWallet s userId of
                    None \<Rightarrow> (Fail WalletNotFound, s, None)
                  | Some wallet \<Rightarrow>
                      let walletBalance = w_balance wallet;
                          entryAmount = gm_entryAmount gmatch
                      in if walletBalance < 200 then (Fail MinimumBalance, s, None)
                         else if walletBalance < entryAmount then (Fail InsufficientFunds, s, None)
                         else
                           let s1 = snd (addPlayerToMatch matchId userId joined now s);
                               players = getMatchPlayers s1 matchId;
                               aiPlayer = getUserByUsername s1 ''AI_Player''
                           in (Ok, s1,
                               (case aiPlayer of
                                  None \<Rightarrow> None
                                | Some ai \<Rightarrow>
                                    if list_ex (\<lambda>p. pm_userId p = u_id ai) players
                                       \<and> length players \<ge> 2
                                    then Some \<lparr> tm_matchId = matchId,
                                                tm_gameId = gm_gameId gmatch,
                                                tm_entryAmount = gm_entryAmount gmatch,
                                                tm_players = players,
                                                tm_aiPlayerId = u_id ai \<rparr>
                                    else None))))"

text \<open>The fee loop of the timer callback: debit, then record, for each captured player.\<close>

fun autoStartLoop :: "PlayerMatch list \<Rightarrow> amount \<Rightarrow> date \<Rightarrow> MemStorage \<Rightarrow> MemStorage" where
  "autoStartLoop [] entryAmount now s = s"
| "autoStartLoop (player # rest) entryAmount now s =
     (let s1 = snd (updateWalletBalance (pm_userId player) (- entryAmount) s);
          s2 = snd (createTransaction (pm_userId player) (- entryAmount)
                      game_entry tx_completed (Some 0) now s1)
      in autoStartLoop rest entryAmount now s2)"

text \<open>
  The body of the 3-second timer: it runs against whatever the store holds when it
  fires, and schedules the completion timer.
\<close>

definition autoStart :: "start_timer \<Rightarrow> date \<Rightarrow> MemStorage \<Rightarrow> MemStorage \<times> complete_timer" where
  "autoStart tm now s =
     (let s1 = snd (updateGameMatch (tm_matchId tm)
                      (\<lambda>m. m\<lparr> gm_status := in_progress, gm_startTime := Some now \<rparr>) s);
          game = getGame s1 (tm_gameId tm);
          entryAmount = tm_entryAmount tm;
          s2 = autoStartLoop (tm_players tm) entryAmount now s1
      in (s2, \<lparr> ct_timer = tm, ct_game = game \<rparr>))"

text \<open>\<^verbatim>\<open>winnerUser?.subscriptionExpiryDate && new Date(...) > new Date()\<close>\<close>

definition hasActiveSubscription :: "MemStorage \<Rightarrow> nat \<Rightarrow> date \<Rightarrow> bool" where
  "hasActiveSubscription s winnerId now =
     (case getUser s winnerId of
        None \<Rightarrow> False
      | Some winnerUser \<Rightarrow>
          (case u_subscriptionExpiryDate winnerUser of
             None \<Rightarrow> False
           | Some e \<Rightarrow> e > now))"

fun updatePlayerStatuses :: "PlayerMatch list \<Rightarrow> nat \<Rightarrow> MemStorage \<Rightarrow> MemStorage" where
  "updatePlayerStatuses [] winnerId s = s"
| "updatePlayerStatuses (player # rest) winnerId s =
     (let newStatus = (if pm_userId player = winnerId then won else lost)
      in updatePlayerStatuses rest winnerId
           (snd (updatePlayerMatchStatus (pm_id player) newStatus s)))"

text \<open>The body of the 5-second completion timer.\<close>

definition autoComplete :: "complete_timer \<Rightarrow> date \<Rightarrow> MemStorage \<Rightarrow> MemStorage" where
  "autoComplete ct now s =
     (let tm = ct_timer ct; players = tm_players tm; entryAmount = tm_entryAmount tm
      in case find (\<lambda>p. pm_userId p \<noteq> tm_aiPlayerId tm) players of
           None \<Rightarrow> s
         | Some p \<Rightarrow>
             let winnerId = pm_userId p;
                 totalPrize = entryAmount * of_nat (length players);
                 commissionPercentage =
                   (case ct_game ct of Some g \<Rightarrow> g_commissionPercentage g | None \<Rightarrow> 5 / 2);
                 hasSubscription = hasActiveSubscription s winnerId now;
                 commission = calculateCommission totalPrize commissionPercentage hasSubscription;
                 winnerPrize = totalPrize - commission;
                 s1 = snd (updateGameMatch (tm_matchId tm)
                             (\<lambda>m. m\<lparr> gm_status := completed, gm_endTime := Some now,
                                     gm_winnerId := Some winnerId \<rparr>) s);
                 s2 = updatePlayerStatuses players winnerId s1;
                 s3 = snd (updateWalletBalance winnerId winnerPrize s2)
             in snd (createTransaction winnerId winnerPrize game_win tx_completed
                       (Some commission) now s3))"

subsection \<open>Completing a match by request\<close>

definition completeMatch :: "nat \<Rightarrow> nat \<Rightarrow> date \<Rightarrow> MemStorage \<Rightarrow> response \<times> MemStorage" where
  "completeMatch matchId winnerId now s =
     (case getGameMatch s matchId of
        None \<Rightarrow> (Fail MatchNotFound, s)
      | Some gmatch \<Rightarrow>
          if gm_status gmatch \<noteq> in_progress then (Fail MatchNotInProgress, s)
          else
            (case getGame s (gm_gameId gmatch) of
               None \<Rightarrow> (Fail GameNotFound, s)
             | Some game \<Rightarrow>
                 let players = getMatchPlayers s matchId
                 in if \<not> list_ex (\<lambda>player. pm_userId player = winnerId) players
                    then (Fail WinnerNotPlayer, s)
                    else
                      let entryAmount = gm_entryAmount gmatch;
                          totalPrize = entryAmount * of_nat (length players);
                          commissionPercentage = g_commissionPercentage game;
                          hasSubscription = hasActiveSubscription s winnerId now;
                          commission =
                            calculateCommission totalPrize commissionPercentage hasSubscription;
                          winnerPrize = totalPrize - commission;
                          s1 = snd (updateGameMatch matchId
                                      (\<lambda>m. m\<lparr> gm_status := completed, gm_endTime := Some now,
                                              gm_winnerId := Some winnerId \<rparr>) s);
                          s2 = updatePlayerStatuses players winnerId s1;
                          s3 = snd (updateWalletBalance winnerId winnerPrize s2);
                          s4 = snd (createTransaction winnerId winnerPrize game_win tx_completed
                                      (Some commission) now s3)
                      in (Ok, s4)))"

subsection \<open>Registration and match creation\<close>

text \<open>
  \<^verbatim>\<open>POST /api/register\<close>: the username check, the new user and its wallet, which
  starts at \<^verbatim>\<open>"0"\<close>, and the referral bonus. \<open>referrerId\<close> is the outcome of the
  referral-code lookup; the email check and the new user's referral code concern
  fields of the user that are left out.
\<close>

definition register :: "string \<Rightarrow> nat option \<Rightarrow> date \<Rightarrow> MemStorage \<Rightarrow> response \<times> MemStorage" where
  "register username referrerId now s =
     (case getUserByUsername s username of
        Some existingUsername \<Rightarrow> (Fail UsernameExists, s)
      | None \<Rightarrow>
          let (user, s1) = createUser username 25 s;
              s2 = snd (createWallet (u_id user) 0 now s1)
          in (case referrerId of
                None \<Rightarrow> (Ok, s2)
              | Some r \<Rightarrow>
                  if r = 0 then (Ok, s2)
                  else
                    let s3 = snd (addRewardPoints r 100 s2);
                        s4 = snd (updateWalletBalance r 10 s3);
                        s5 = snd (updateWalletBalance (u_id user) 10 s4);
                        s6 = snd (createTransaction r 10 referral_bonus tx_completed (Some 0) now s5);
                        s7 = snd (createTransaction (u_id user) 10 referral_bonus tx_completed
                                    (Some 0) now s6)
                    in (Ok, s7)))"

text \<open>
  \<^verbatim>\<open>POST /api/matches\<close>. The automated opponent's account is created on first use with
  a wallet of \<^verbatim>\<open>"10000"\<close>; the returned pair is the 2-second timer that adds it to the
  match.
\<close>

definition createMatch ::
  "nat \<Rightarrow> amount \<Rightarrow> nat \<Rightarrow> date \<Rightarrow> MemStorage \<Rightarrow> response \<times> MemStorage \<times> (nat \<times> nat) option" where
  "createMatch gameId amt userId now s =
     (case getGame s gameId of
        None \<Rightarrow> (Fail GameNotFound, s, None)
      | Some game \<Rightarrow>
          if amt < g_minEntry game \<or> amt > g_maxEntry game then (Fail EntryOutOfRange, s, None)
          else
            (case getWallet s userId of
               None \<Rightarrow> (Fail WalletNotFound, s, None)
             | Some wallet \<Rightarrow>
                 let walletBalance = w_balance wallet
                 in if walletBalance < 200 then (Fail MinimumBalance, s, None)
                    else if walletBalance < amt then (Fail InsufficientFunds, s, None)
                    else
                      let (gmatch, s1) = createGameMatch gameId amt waiting now s;
                          s2 = snd (addPlayerToMatch (gm_id gmatch) userId joined now s1)
                      in (case getUserByUsername s2 ''AI_Player'' of
                            Some aiUser \<Rightarrow> (Ok, s2, Some (gm_id gmatch, u_id aiUser))
                          | None \<Rightarrow>
                              let (aiUser, s3) = createUser ''AI_Player'' 0 s2;
                                  s4 = snd (createWallet (u_id aiUser) 10000 now s3)
                              in (Ok, s4, Some (gm_id gmatch, u_id aiUser)))))"

text \<open>The body of that timer.\<close>

definition aiJoin :: "nat \<times> nat \<Rightarrow> date \<Rightarrow> MemStorage \<Rightarrow> MemStorage" where
  "aiJoin tm now s = snd (addPlayerToMatch (fst tm) (snd tm) joined now s)"

subsection \<open>Deposits and withdrawals\<close>

definition depositRequest :: "nat \<Rightarrow> amount \<Rightarrow> date \<Rightarrow> MemStorage \<Rightarrow> response \<times> MemStorage" where
  "depositRequest userId amt now s =
     (if amt < 100 then (Fail MinimumDeposit, s)
      else (Ok, snd (createTransaction userId amt deposit tx_pending (Some 0) now s)))"

text \<open>
  \<^verbatim>\<open>getAllTransactions\<close> sorts newest first (a stable sort); the approval handler
  takes the first pending deposit with the requested id.
\<close>

definition getAllTransactionsSorted :: "MemStorage \<Rightarrow> Transaction list" where
  "getAllTransactionsSorted s = sort_key (\<lambda>t. - t_createdAt t) (map snd (transactions s))"

definition approveDeposit :: "nat \<Rightarrow> date \<Rightarrow> MemStorage \<Rightarrow> response \<times> MemStorage" where
  "approveDeposit transactionId now s =
     (case find (\<lambda>t. t_id t = transactionId \<and> t_type t = deposit \<and> t_status t = tx_pending)
             (getAllTransactionsSorted s) of
        None \<Rightarrow> (Fail DepositNotFound, s)
      | Some transaction \<Rightarrow>
          let depositAmount = t_amount transaction;
              transactionUserId = t_userId transaction
          in (case updateWalletBalance transactionUserId depositAmount s of
                (None, s1) \<Rightarrow> (Fail WalletUpdateError, s1)
              | (Some updatedWallet, s1) \<Rightarrow>
                  (Ok, snd (createTransaction transactionUserId depositAmount deposit
                              tx_completed (Some 0) now s1))))"

definition withdraw :: "nat \<Rightarrow> amount \<Rightarrow> date \<Rightarrow> MemStorage \<Rightarrow> response \<times> MemStorage" where
  "withdraw userId amt now s =
     (case getWallet s userId of
        None \<Rightarrow> (Fail WalletNotFound, s)
      | Some wallet \<Rightarrow>
          if amt \<le> 0 then (Fail AmountNotPositive, s)
          else if w_balance wallet < amt then (Fail InsufficientFunds, s)
          else
            (case updateWalletBalance userId (- amt) s of
               (None, s1) \<Rightarrow> (Fail WalletUpdateError, s1)
             | (Some updatedWallet, s1) \<Rightarrow>
                 (Ok, snd (createTransaction userId (- amt) withdrawal tx_completed
                             (Some 0) now s1))))"

subsection \<open>Subscriptions\<close>

text \<open>
  \<^verbatim>\<open>POST /api/subscriptions\<close>. After \<^verbatim>\<open>createGameSubscription\<close> (which stores the
  rewards of the new subscription) the handler builds a list of rewards of its own,
  of a tier amount, and stores that too.
\<close>

definition purchaseSubscription ::
  "nat \<Rightarrow> string \<Rightarrow> amount \<Rightarrow> amount \<Rightarrow> int \<Rightarrow> date \<Rightarrow> MemStorage
   \<Rightarrow> response \<times> MemStorage \<times> Subscription option" where
  "purchaseSubscription userId name parsedAmount parsedRewardAmount parsedDuration now s =
     (if parsedAmount \<le> 0 then (Fail InvalidAmount, s, None)
      else if parsedRewardAmount \<le> 0 then (Fail InvalidRewardAmount, s, None)
      else if parsedDuration \<le> 0 then (Fail InvalidDuration, s, None)
      else
        (case getWallet s userId of
           None \<Rightarrow> (Fail WalletNotFound, s, None)
         | Some wallet \<Rightarrow>
             if w_balance wallet < parsedAmount then (Fail InsufficientFunds, s, None)
             else
               let s1 = snd (updateWalletBalance userId (- parsedAmount) s);
                   s2 = snd (createTransaction userId (- parsedAmount) subscription_purchase
                               tx_completed (Some 0) now s1);
                   startDate = now;
                   endDate = addDays now parsedDuration;
                   (subscription, s3) =
                     createGameSubscription userId name parsedAmount parsedRewardAmount
                       parsedDuration startDate endDate sub_active now s2;
                   s4 = snd (addSubscription userId parsedDuration now s3);
                   dailyRewardAmount =
                     (if parsedAmount = 2000 then 1714
                      else if parsedAmount = 10000 then 11428
                      else 857);
                   rewards = map (\<lambda>day. \<lparr> ir_subscriptionId = sub_id subscription,
                                           ir_userId = userId, ir_amount = dailyRewardAmount,
                                           ir_day = day, ir_status = pending \<rparr>)
                                 [1 .. parsedDuration]
               in (Ok, createSubscriptionRewards rewards now s4, Some subscription)))"

text \<open>\<^verbatim>\<open>POST /api/subscription/purchase\<close>: the monthly subscription at 300.\<close>

definition purchaseMonthly :: "nat \<Rightarrow> date \<Rightarrow> MemStorage \<Rightarrow> response \<times> MemStorage" where
  "purchaseMonthly userId now s =
     (case getWallet s userId of
        None \<Rightarrow> (Fail InsufficientFunds, s)
      | Some wallet \<Rightarrow>
          if w_balance wallet < 300 then (Fail InsufficientFunds, s)
          else
            let s1 = snd (updateWalletBalance userId (- 300) s);
                s2 = snd (addSubscription userId 30 now s1)
            in (Ok, snd (createTransaction userId (- 300) tx_subscription tx_completed
                           (Some 0) now s2)))"

text \<open>\<^verbatim>\<open>POST /api/redeem-points\<close>: one point is worth 0.10.\<close>

definition redeemPoints :: "nat \<Rightarrow> int \<Rightarrow> date \<Rightarrow> MemStorage \<Rightarrow> response \<times> MemStorage" where
  "redeemPoints userId points now s =
     (if points = 0 \<or> points < 50 then (Fail MinimumPoints, s)
      else
        (case getUser s userId of
           None \<Rightarrow> (Fail UserNotFound, s)
         | Some user \<Rightarrow>
             let userPoints = u_rewardPoints user
             in if userPoints < points then (Fail InsufficientPoints, s)
                else
                  let walletCredit = of_int points * (1 / 10);
                      s1 = snd (addRewardPoints userId (- points) s);
                      s2 = snd (updateWalletBalance userId walletCredit s1)
                  in (Ok, snd (createTransaction userId walletCredit reward_redemption
                                 tx_completed (Some 0) now s2))))"

text \<open>
  The loop of \<^verbatim>\<open>POST /api/admin/process-subscription-rewards\<close>: credit, record,
  mark paid, count.
\<close>

fun processLoop :: "SubscriptionReward list \<Rightarrow> date \<Rightarrow> nat \<times> MemStorage \<Rightarrow> nat \<times> MemStorage" where
  "processLoop [] now (processedCount, s) = (processedCount, s)"
| "processLoop (reward # rest) now (processedCount, s) =
     (let rewardAmount = r_amount reward;
          s1 = snd (updateWalletBalance (r_userId reward) rewardAmount s);
          s2 = snd (createTransaction (r_userId reward) rewardAmount subscription_reward
                      tx_completed (Some 0) now s1);
          s3 = snd (updateRewardStatus (r_id reward) paid None now s2)
      in processLoop rest now (processedCount + 1, s3))"

text \<open>
  The handler; \<open>dateStr\<close> is the parsed \<^verbatim>\<open>req.body.date\<close> when given. The first
  component is the \<^verbatim>\<open>processed\<close> count of the answer.
\<close>

definition processSubscriptionRewards :: "date option \<Rightarrow> date \<Rightarrow> MemStorage \<Rightarrow> nat \<times> MemStorage" where
  "processSubscriptionRewards dateStr now s =
     (let d = (case dateStr of Some x \<Rightarrow> x | None \<Rightarrow> now);
          pendingRewards = getPendingRewardsByDate s d
      in if length pendingRewards = 0 then (0, s)
         else processLoop pendingRewards now (0, s))"

section \<open>The operations as a transition system\<close>

text \<open>
  One value per entry point that can touch the store: the request handlers and the
  bodies of the timers they schedule. A timer body takes the closure it was scheduled
  with; any closure value is allowed here.
\<close>

datatype op =
  OpRegister string "nat option"
  | OpCreateMatch nat amount nat
  | OpAiJoin "nat \<times> nat"
  | OpJoinMatch nat nat
  | OpAutoStart start_timer
  | OpAutoComplete complete_timer
  | OpStartMatch nat nat
  | OpCompleteMatch nat nat
  | OpDepositRequest nat amount
  | OpApproveDeposit nat
  | OpWithdraw nat amount
  | OpPurchaseSubscription nat string amount amount int
  | OpPurchaseMonthly nat
  | OpRedeemPoints nat int
  | OpProcessRewards "date option"

fun step :: "op \<times> date \<Rightarrow> MemStorage \<Rightarrow> MemStorage" where
  "step (OpRegister username referrerId, now) s = snd (register username referrerId now s)"
| "step (OpCreateMatch gameId amt userId, now) s = fst (snd (createMatch gameId amt userId now s))"
| "step (OpAiJoin tm, now) s = aiJoin tm now s"
| "step (OpJoinMatch matchId userId, now) s = fst (snd (joinMatch matchId userId now s))"
| "step (OpAutoStart tm, now) s = fst (autoStart tm now s)"
| "step (OpAutoComplete ct, now) s = autoComplete ct now s"
| "step (OpStartMatch matchId userId, now) s = snd (startMatch matchId userId now s)"
| "step (OpCompleteMatch matchId winnerId, now) s = snd (completeMatch matchId winnerId now s)"
| "step (OpDepositRequest userId amt, now) s = snd (depositRequest userId amt now s)"
| "step (OpApproveDeposit transactionId, now) s = snd (approveDeposit transactionId now s)"
| "step (OpWithdraw userId amt, now) s = snd (withdraw userId amt now s)"
| "step (OpPurchaseSubscription userId name a r d, now) s =
     fst (snd (purchaseSubscription userId name a r d now s))"
| "step (OpPurchaseMonthly userId, now) s = snd (purchaseMonthly userId now s)"
| "step (OpRedeemPoints userId points, now) s = snd (redeemPoints userId points now s)"
| "step (OpProcessRewards dateStr, now) s = snd (processSubscriptionRewards dateStr now s)"

fun run :: "(op \<times> date) list \<Rightarrow> MemStorage \<Rightarrow> MemStorage" where
  "run [] s = s"
| "run (e # es) s = run es (step e s)"

text \<open>Every stored wallet has a balance of at least 0.\<close>

definition wallets_nonneg :: "MemStorage \<Rightarrow> bool" where
  "wallets_nonneg s = list_all (\<lambda>(k, w). 0 \<le> w_balance w) (wallets s)"

section \<open>Predicates of the statements\<close>

text \<open>
  A table is \<open>keyed\<close> by \<open>idf\<close> when its keys are distinct and every row sits under its
  own id, as the store's counters arrange.
\<close>

definition keyed :: "('v \<Rightarrow> nat) \<Rightarrow> (nat \<times> 'v) list \<Rightarrow> bool" where
  "keyed idf al = (distinct (map fst al) \<and> list_all (\<lambda>(k, v). idf v = k) al)"

text \<open>Every key of a table lies below its counter, so the next id is new.\<close>

definition below :: "nat \<Rightarrow> (nat \<times> 'v) list \<Rightarrow> bool" where
  "below c al = list_all (\<lambda>(k, v). k < c) al"

text \<open>
  The id discipline of the wallet, transaction and reward tables: each is keyed by its
  rows' ids and lies below its counter.
\<close>

definition store_wf :: "MemStorage \<Rightarrow> bool" where
  "store_wf s =
     (keyed w_id (wallets s) \<and> below (walletIdCounter s) (wallets s)
      \<and> keyed t_id (transactions s) \<and> below (transactionIdCounter s) (transactions s)
      \<and> keyed r_id (subscriptionRewards s)
      \<and> below (subscriptionRewardIdCounter s) (subscriptionRewards s))"

definition balance_of :: "MemStorage \<Rightarrow> nat \<Rightarrow> amount option" where
  "balance_of s u = map_option w_balance (getWallet s u)"

text \<open>The amounts of a user's \<^verbatim>\<open>game_entry\<close> transactions, oldest first.\<close>

definition entry_fees :: "MemStorage \<Rightarrow> nat \<Rightarrow> amount list" where
  "entry_fees s u =
     map t_amount
       (filter (\<lambda>t. t_userId t = u \<and> t_type t = game_entry) (map snd (transactions s)))"

text \<open>The sum of a user's transactions of status \<^verbatim>\<open>completed\<close>.\<close>

definition completedSum :: "MemStorage \<Rightarrow> nat \<Rightarrow> amount" where
  "completedSum s u =
     sum_list (map t_amount
       (filter (\<lambda>t. t_userId t = u \<and> t_status t = tx_completed) (map snd (transactions s))))"


section \<open>Concrete scenarios\<close>

text \<open>Two events for the room \<open>global\<close>, the first with empty content.\<close>

definition demo_events :: "(string \<times> nat \<times> send_data) list" where
  "demo_events =
     [(''id-1'', 10, \<lparr> content = [], sender = 1, senderName = ''ann'', roomId = ''global'' \<rparr>),
      (''id-2'', 11, \<lparr> content = ''hi'', sender = 2, senderName = ''bob'', roomId = ''global'' \<rparr>)]"

text \<open>
  A store as the handlers leave it: alice (user 1) has created match 1 of Ludo Royal
  at an entry of 200, the automated opponent (user 2) has been added by its timer, and
  bob (user 3) has not joined yet. Alice has deposited 1000 and bob \<open>b\<close>, both approved.
\<close>

definition lobby :: "amount \<Rightarrow> MemStorage" where
  "lobby b =
     \<lparr> users = [(1, \<lparr> u_id = 1, u_username = ''alice'', u_hasSubscription = False,
                       u_subscriptionExpiryDate = None, u_rewardPoints = 25 \<rparr>),
                 (2, \<lparr> u_id = 2, u_username = ''AI_Player'', u_hasSubscription = False,
                       u_subscriptionExpiryDate = None, u_rewardPoints = 0 \<rparr>),
                 (3, \<lparr> u_id = 3, u_username = ''bob'', u_hasSubscription = False,
                       u_subscriptionExpiryDate = None, u_rewardPoints = 25 \<rparr>)],
       wallets = [(1, \<lparr> w_id = 1, w_userId = 1, w_balance = 1000, w_createdAt = 1 \<rparr>),
                  (2, \<lparr> w_id = 2, w_userId = 2, w_balance = 10000, w_createdAt = 2 \<rparr>),
                  (3, \<lparr> w_id = 3, w_userId = 3, w_balance = b, w_createdAt = 3 \<rparr>)],
       transactions =
         [(1, \<lparr> t_id = 1, t_userId = 1, t_amount = 1000, t_type = deposit, t_status = tx_pending,
                t_commissionAmount = Some 0, t_createdAt = 4 \<rparr>),
          (2, \<lparr> t_id = 2, t_userId = 1, t_amount = 1000, t_type = deposit, t_status = tx_completed,
                t_commissionAmount = Some 0, t_createdAt = 5 \<rparr>),
          (3, \<lparr> t_id = 3, t_userId = 3, t_amount = b, t_type = deposit, t_status = tx_pending,
                t_commissionAmount = Some 0, t_createdAt = 6 \<rparr>),
          (4, \<lparr> t_id = 4, t_userId = 3, t_amount = b, t_type = deposit, t_status = tx_completed,
                t_commissionAmount = Some 0, t_createdAt = 7 \<rparr>)],
       games = [(1, \<lparr> g_id = 1, g_name = ''Ludo Royal'', g_minEntry = 200, g_maxEntry = 1000,
                       g_commissionPercentage = 10, g_isActive = True \<rparr>)],
       gameMatches = [(1, \<lparr> gm_id = 1, gm_gameId = 1, gm_entryAmount = 200, gm_status = waiting,
                             gm_winnerId = None, gm_startTime = None, gm_endTime = None,
                             gm_createdAt = 8 \<rparr>)],
       playerMatches = [(1, \<lparr> pm_id = 1, pm_matchId = 1, pm_userId = 1, pm_status = joined,
                               pm_createdAt = 8 \<rparr>),
                        (2, \<lparr> pm_id = 2, pm_matchId = 1, pm_userId = 2, pm_status = joined,
                               pm_createdAt = 9 \<rparr>)],
       subscriptions = [], subscriptionRewards = [],
       userIdCounter = 4, walletIdCounter = 4, transactionIdCounter = 5,
       gameIdCounter = 2, gameMatchIdCounter = 2, playerMatchIdCounter = 3,
       subscriptionIdCounter = 1, subscriptionRewardIdCounter = 1 \<rparr>"


text \<open>Bob joins; the join handler schedules the automatic start with this closure.\<close>

definition race_timer :: start_timer where
  "race_timer =
     \<lparr> tm_matchId = 1, tm_gameId = 1, tm_entryAmount = 200,
       tm_players =
         [\<lparr> pm_id = 1, pm_matchId = 1, pm_userId = 1, pm_status = joined, pm_createdAt = 8 \<rparr>,
          \<lparr> pm_id = 2, pm_matchId = 1, pm_userId = 2, pm_status = joined, pm_createdAt = 9 \<rparr>,
          \<lparr> pm_id = 3, pm_matchId = 1, pm_userId = 3, pm_status = joined, pm_createdAt = 10 \<rparr>],
       tm_aiPlayerId = 2 \<rparr>"

definition joined_store :: "amount \<Rightarrow> MemStorage" where
  "joined_store b = fst (snd (joinMatch 1 3 10 (lobby b)))"

text \<open>The match started by bob's request: three players, in progress.\<close>

definition arena :: MemStorage where
  "arena = snd (startMatch 1 3 20 (joined_store 1000))"


text \<open>
  A store with one two-day subscription of alice, begun at time 40, and its reward
  rows: two of 50 from the store and two of 857 from the handler.
\<close>

definition paying_store :: MemStorage where
  "paying_store =
     \<lparr> users = [(1, \<lparr> u_id = 1, u_username = ''alice'', u_hasSubscription = True,
                       u_subscriptionExpiryDate = Some 172800040, u_rewardPoints = 25 \<rparr>)],
       wallets = [(1, \<lparr> w_id = 1, w_userId = 1, w_balance = 500, w_createdAt = 1 \<rparr>)],
       transactions =
         [(1, \<lparr> t_id = 1, t_userId = 1, t_amount = 1000, t_type = deposit, t_status = tx_pending,
                t_commissionAmount = Some 0, t_createdAt = 4 \<rparr>),
          (2, \<lparr> t_id = 2, t_userId = 1, t_amount = 1000, t_type = deposit, t_status = tx_completed,
                t_commissionAmount = Some 0, t_createdAt = 5 \<rparr>),
          (3, \<lparr> t_id = 3, t_userId = 1, t_amount = - 500, t_type = subscription_purchase,
                t_status = tx_completed, t_commissionAmount = Some 0, t_createdAt = 40 \<rparr>)],
       games = [], gameMatches = [], playerMatches = [],
       subscriptions =
         [(1, \<lparr> sub_id = 1, sub_userId = 1, sub_name = ''Trial'', sub_amount = 500,
                sub_rewardAmount = 100, sub_duration = 2, sub_startDate = 40,
                sub_endDate = 172800040, sub_status = sub_active, sub_createdAt = 40 \<rparr>)],
       subscriptionRewards =
         [(1, \<lparr> r_id = 1, r_subscriptionId = 1, r_userId = 1, r_amount = 50, r_day = 1,
                r_status = pending, r_paidAt = None, r_createdAt = 40 \<rparr>),
          (2, \<lparr> r_id = 2, r_subscriptionId = 1, r_userId = 1, r_amount = 50, r_day = 2,
                r_status = pending, r_paidAt = None, r_createdAt = 40 \<rparr>),
          (3, \<lparr> r_id = 3, r_subscriptionId = 1, r_userId = 1, r_amount = 857, r_day = 1,
                r_status = pending, r_paidAt = None, r_createdAt = 40 \<rparr>),
          (4, \<lparr> r_id = 4, r_subscriptionId = 1, r_userId = 1, r_amount = 857, r_day = 2,
                r_status = pending, r_paidAt = None, r_createdAt = 40 \<rparr>)],
       userIdCounter = 2, walletIdCounter = 2, transactionIdCounter = 4,
       gameIdCounter = 1, gameMatchIdCounter = 1, playerMatchIdCounter = 1,
       subscriptionIdCounter = 2, subscriptionRewardIdCounter = 5 \<rparr>"

section \<open>The commission calculators compared\<close>

lemma calculateGameCommission_spec:
  "calculateGameCommission p c h = spec_commission p c h"
  by (simp add: calculateGameCommission_def spec_commission_def round_half_up_cents_def
      Math_round_def Let_def)

lemma calculateCommission_zero:
  "p \<le> 0 \<or> c \<le> 0 \<Longrightarrow> calculateCommission p c h = 0"
  by (simp add: calculateCommission_def)

lemma calculateCommission_discount:
  "0 < p \<Longrightarrow> 0 < c \<Longrightarrow> calculateCommission p c True = p * (c * (75 / 100)) / 100"
  by (simp add: calculateCommission_def)

text \<open>
  C7. The commission is to be the product \<open>prizePool * effectivePct / 100\<close> rounded
  half up to two decimals. \<^const>\<open>calculateGameCommission\<close> is that function
  (\<open>calculateGameCommission_spec\<close>), but the server's \<^const>\<open>calculateCommission\<close>,
  which the match handlers call, returns the product unrounded: for a pool of 603 at
  15 percent with the subscriber discount it gives 67.8375, where the rounded value
  is 67.84.
\<close>

theorem calculateCommission_not_rounded:
  "calculateCommission 603 15 True = 54270 / 800
   \<and> spec_commission 603 15 True = 6784 / 100
   \<and> calculateGameCommission 603 15 True = 6784 / 100
   \<and> calculateCommission 603 15 True \<noteq> spec_commission 603 15 True"
proof -
  have "\<lfloor>(27137::rat) / 4\<rfloor> = 6784" by (rule floor_unique) simp_all
  then show ?thesis
    by (simp add: calculateCommission_def calculateGameCommission_def spec_commission_def
        round_half_up_cents_def Math_round_def)
qed

section \<open>The bounded message history\<close>

lemma lastN_append_lastN: "lastN n (lastN n xs @ ys) = lastN n (xs @ ys)"
  by (cases "length xs \<le> n") (simp_all add: lastN_def add.commute)

lemma lastN_short: "length xs \<le> n \<Longrightarrow> lastN n xs = xs"
  by (simp add: lastN_def)

lemma lastN_snoc_full:
  "length h \<ge> n \<Longrightarrow> length h \<le> n \<Longrightarrow> n > 0 \<Longrightarrow> lastN n (h @ [m]) = tl h @ [m]"
  by (cases h) (simp_all add: lastN_def)

lemma length_lastN: "length (lastN n xs) \<le> n"
  by (simp add: lastN_def)

lemma length_lastN_min: "length (lastN n xs) = min (length xs) n"
  by (simp add: lastN_def)

lemma sendMessage_accept:
  assumes "content d \<noteq> []" "roomId d \<noteq> []" "length (getMessageHistory mh (roomId d)) \<le> 100"
  shows "getMessageHistory (fst (sendMessage uuid now d mh)) (roomId d)
         = lastN 100 (getMessageHistory mh (roomId d) @ [mkMessage uuid now d])"
  using assms
  by (auto simp: sendMessage_def getMessageHistory_def Let_def lastN_short lastN_snoc_full
      split: option.splits)

lemma sendMessage_other:
  assumes "content d = [] \<or> roomId d \<noteq> r"
  shows "getMessageHistory (fst (sendMessage uuid now d mh)) r = getMessageHistory mh r"
  using assms
  by (auto simp: sendMessage_def getMessageHistory_def Let_def split: option.splits)

lemma sendMessages_history:
  "r \<noteq> [] \<Longrightarrow> length (getMessageHistory mh r) \<le> 100 \<Longrightarrow>
   getMessageHistory (sendMessages evs mh) r = lastN 100 (getMessageHistory mh r @ accepted r evs)"
proof (induction evs arbitrary: mh)
  case Nil
  then show ?case by (simp add: accepted_def lastN_short)
next
  case (Cons ev evs)
  obtain uuid now d where ev: "ev = (uuid, now, d)" by (cases ev) auto
  let ?mh' = "fst (sendMessage uuid now d mh)"
  show ?case
  proof (cases "content d \<noteq> [] \<and> roomId d = r")
    case True
    have h: "getMessageHistory ?mh' r = lastN 100 (getMessageHistory mh r @ [mkMessage uuid now d])"
      using sendMessage_accept[of d mh uuid now] True Cons.prems by simp
    then have len: "length (getMessageHistory ?mh' r) \<le> 100" by (simp add: length_lastN)
    have "getMessageHistory (sendMessages (ev # evs) mh) r
          = lastN 100 (getMessageHistory ?mh' r @ accepted r evs)"
      using Cons.IH[OF Cons.prems(1) len] by (simp add: ev)
    also have "\<dots> = lastN 100 ((getMessageHistory mh r @ [mkMessage uuid now d]) @ accepted r evs)"
      by (simp only: h lastN_append_lastN)
    also have "\<dots> = lastN 100 (getMessageHistory mh r @ accepted r (ev # evs))"
      using True by (simp add: accepted_def ev)
    finally show ?thesis .
  next
    case False
    have h: "getMessageHistory ?mh' r = getMessageHistory mh r"
      using sendMessage_other[of d r uuid now mh] False by auto
    have "getMessageHistory (sendMessages (ev # evs) mh) r
          = lastN 100 (getMessageHistory ?mh' r @ accepted r evs)"
      using Cons.IH[of ?mh'] Cons.prems h by (simp add: ev)
    also have "\<dots> = lastN 100 (getMessageHistory mh r @ accepted r (ev # evs))"
      using False by (auto simp: accepted_def ev h)
    finally show ?thesis .
  qed
qed

text \<open>
  C10, as the code has it. For a room \<open>r\<close> (a non-empty id) whose history is empty,
  after any run of send events the history of \<open>r\<close> is exactly the most recent
  \<open>min n 100\<close> of the \<open>n\<close> messages the handler accepted for \<open>r\<close>, in the order they
  were sent. An event with empty content is not accepted: the handler returns before
  it stores anything.
\<close>

theorem history_is_last_100_accepted:
  assumes "r \<noteq> []" and "getMessageHistory mh r = []"
  shows "getMessageHistory (sendMessages evs mh) r = lastN 100 (accepted r evs)
         \<and> length (getMessageHistory (sendMessages evs mh) r) = min (length (accepted r evs)) 100"
  using sendMessages_history[of r mh evs] assms by (simp add: length_lastN_min)

theorem history_is_last_100_accepted_witness:
  "''global'' \<noteq> [] \<and> getMessageHistory (Map.empty(''global'' \<mapsto> [])) ''global'' = []
   \<and> getMessageHistory (sendMessages demo_events (Map.empty(''global'' \<mapsto> []))) ''global''
       = [\<lparr> m_id = ''id-2'', m_sender = 2, m_senderName = ''bob'', m_content = ''hi'',
            m_timestamp = 11, m_roomId = ''global'' \<rparr>]"
proof -
  have h: "getMessageHistory (Map.empty(''global'' \<mapsto> [])) ''global'' = []"
    by (simp add: getMessageHistory_def)
  have a: "lastN 100 (accepted ''global'' demo_events)
           = [\<lparr> m_id = ''id-2'', m_sender = 2, m_senderName = ''bob'', m_content = ''hi'',
                m_timestamp = 11, m_roomId = ''global'' \<rparr>]"
    by (simp add: accepted_def demo_events_def mkMessage_def lastN_def)
  show ?thesis
    using history_is_last_100_accepted[of "''global''" "Map.empty(''global'' \<mapsto> [])" demo_events] h a
    by simp
qed

text \<open>
  The claim as stated fails: one send event with empty content, to a room with no
  prior message, leaves the history empty rather than holding that one message.
\<close>

theorem send_empty_content_counterexample:
  "getMessageHistory
     (sendMessages
        [(''id-1'', 10, \<lparr> content = [], sender = 1, senderName = ''ann'', roomId = ''global'' \<rparr>)]
        (Map.empty(''global'' \<mapsto> [])))
     ''global'' = []
   \<and> length (getMessageHistory
        (sendMessages
           [(''id-1'', 10, \<lparr> content = [], sender = 1, senderName = ''ann'', roomId = ''global'' \<rparr>)]
           (Map.empty(''global'' \<mapsto> [])))
        ''global'') \<noteq> min 1 100"
  by (simp add: sendMessage_def getMessageHistory_def)

section \<open>Balances never go below zero\<close>

lemma list_all_update:
  "list_all P al \<Longrightarrow> P (k, v) \<Longrightarrow> list_all P (AList.update k v al)"
  by (induction al) auto

lemma find_snd_list_all:
  "list_all (\<lambda>(k, w). P w) al \<Longrightarrow> find Q (map snd al) = Some w \<Longrightarrow> P w"
  by (induction al) (auto split: if_splits)

lemma wallets_createTransaction [simp]:
  "wallets (snd (createTransaction u a ty st c now s)) = wallets s"
  by (simp add: createTransaction_def Let_def)

lemma nonneg_createTransaction [simp]:
  "wallets_nonneg (snd (createTransaction u a ty st c now s)) = wallets_nonneg s"
  by (simp add: wallets_nonneg_def)

lemma wallets_updateGameMatch [simp]: "wallets (snd (updateGameMatch i f s)) = wallets s"
  by (simp add: updateGameMatch_def Let_def split: option.splits)

lemma nonneg_updateGameMatch [simp]:
  "wallets_nonneg (snd (updateGameMatch i f s)) = wallets_nonneg s"
  by (simp add: wallets_nonneg_def)

lemma wallets_createGameMatch [simp]: "wallets (snd (createGameMatch g e st now s)) = wallets s"
  by (simp add: createGameMatch_def Let_def)

lemma nonneg_createGameMatch [simp]:
  "wallets_nonneg (snd (createGameMatch g e st now s)) = wallets_nonneg s"
  by (simp add: wallets_nonneg_def)

lemma wallets_addPlayerToMatch [simp]: "wallets (snd (addPlayerToMatch m u st now s)) = wallets s"
  by (simp add: addPlayerToMatch_def Let_def)

lemma nonneg_addPlayerToMatch [simp]:
  "wallets_nonneg (snd (addPlayerToMatch m u st now s)) = wallets_nonneg s"
  by (simp add: wallets_nonneg_def)

lemma wallets_updatePlayerMatchStatus [simp]: "wallets (snd (updatePlayerMatchStatus i st s)) = wallets s"
  by (simp add: updatePlayerMatchStatus_def Let_def split: option.splits)

lemma nonneg_updatePlayerMatchStatus [simp]:
  "wallets_nonneg (snd (updatePlayerMatchStatus i st s)) = wallets_nonneg s"
  by (simp add: wallets_nonneg_def)

lemma wallets_updatePlayerStatuses [simp]: "wallets (updatePlayerStatuses ps w s) = wallets s"
  by (induction ps arbitrary: s) (simp_all add: Let_def)

lemma nonneg_updatePlayerStatuses [simp]:
  "wallets_nonneg (updatePlayerStatuses ps w s) = wallets_nonneg s"
  by (simp add: wallets_nonneg_def)

lemma wallets_createUser [simp]: "wallets (snd (createUser n p s)) = wallets s"
  by (simp add: createUser_def Let_def)

lemma nonneg_createUser [simp]:
  "wallets_nonneg (snd (createUser n p s)) = wallets_nonneg s"
  by (simp add: wallets_nonneg_def)

lemma wallets_addRewardPoints [simp]: "wallets (snd (addRewardPoints u p s)) = wallets s"
  by (simp add: addRewardPoints_def Let_def split: option.splits)

lemma nonneg_addRewardPoints [simp]:
  "wallets_nonneg (snd (addRewardPoints u p s)) = wallets_nonneg s"
  by (simp add: wallets_nonneg_def)

lemma wallets_addSubscription [simp]: "wallets (snd (addSubscription u d now s)) = wallets s"
  by (simp add: addSubscription_def Let_def split: option.splits)

lemma nonneg_addSubscription [simp]:
  "wallets_nonneg (snd (addSubscription u d now s)) = wallets_nonneg s"
  by (simp add: wallets_nonneg_def)

lemma wallets_createSubscriptionRewards [simp]: "wallets (createSubscriptionRewards rs now s) = wallets s"
  by (induction rs arbitrary: s) (simp_all add: Let_def)

lemma nonneg_createSubscriptionRewards [simp]:
  "wallets_nonneg (createSubscriptionRewards rs now s) = wallets_nonneg s"
  by (simp add: wallets_nonneg_def)

lemma wallets_createGameSubscription [simp]:
  "wallets (snd (createGameSubscription u n a r d sd ed st now s)) = wallets s"
  by (simp add: createGameSubscription_def Let_def)

lemma nonneg_createGameSubscription [simp]:
  "wallets_nonneg (snd (createGameSubscription u n a r d sd ed st now s)) = wallets_nonneg s"
  by (simp add: wallets_nonneg_def)

lemma wallets_updateRewardStatus [simp]: "wallets (snd (updateRewardStatus i st p now s)) = wallets s"
  by (simp add: updateRewardStatus_def Let_def split: option.splits)

lemma nonneg_updateRewardStatus [simp]:
  "wallets_nonneg (snd (updateRewardStatus i st p now s)) = wallets_nonneg s"
  by (simp add: wallets_nonneg_def)

lemma getWallet_nonneg:
  "wallets_nonneg s \<Longrightarrow> getWallet s u = Some w \<Longrightarrow> 0 \<le> w_balance w"
  using find_snd_list_all[of "\<lambda>w. 0 \<le> w_balance w" "wallets s"]
  by (simp add: wallets_nonneg_def getWallet_def)

lemma nonneg_updateWalletBalance:
  "wallets_nonneg s \<Longrightarrow> wallets_nonneg (snd (updateWalletBalance u d s))"
  by (auto simp: updateWalletBalance_def Let_def wallets_nonneg_def intro!: list_all_update split: option.splits)


lemma nonneg_same: "wallets_nonneg s \<Longrightarrow> wallets s' = wallets s \<Longrightarrow> wallets_nonneg s'"
  by (simp add: wallets_nonneg_def)



























section \<open>Completing a match\<close>

lemma update_fresh: "k \<notin> fst ` set al \<Longrightarrow> AList.update k v al = al @ [(k, v)]"
  by (induction al) auto

lemma find_snd_mem: "find Q (map snd al) = Some w \<Longrightarrow> \<exists>k. (k, w) \<in> set al \<and> Q w"
  by (induction al) (auto split: if_splits)

lemma find_update_wallet:
  assumes "keyed w_id al" and "find (\<lambda>x. w_userId x = u) (map snd al) = Some w"
  shows "find (\<lambda>x. w_userId x = v) (map snd (AList.update (w_id w) (w\<lparr>w_balance := b\<rparr>) al))
         = (if v = u then Some (w\<lparr>w_balance := b\<rparr>) else find (\<lambda>x. w_userId x = v) (map snd al))"
  using assms
proof (induction al)
  case Nil
  then show ?case by simp
next
  case (Cons p al)
  obtain k x where p: "p = (k, x)" by (cases p) auto
  from Cons.prems(1) have kd: "keyed w_id al" and idk: "w_id x = k" and kfresh: "k \<notin> fst ` set al"
    by (auto simp: keyed_def p)
  show ?case
  proof (cases "w_userId x = u")
    case True
    with Cons.prems(2) have "w = x" by (simp add: p)
    with True idk show ?thesis by (auto simp: p)
  next
    case False
    with Cons.prems(2) have f: "find (\<lambda>x. w_userId x = u) (map snd al) = Some w" by (simp add: p)
    then obtain k' where mem: "(k', w) \<in> set al" using find_snd_mem by fastforce
    with kd have "w_id w = k'" by (auto simp: keyed_def list_all_iff)
    with mem kfresh have ne: "w_id w \<noteq> k" by force
    from Cons.IH[OF kd f] ne False show ?thesis by (auto simp: p)
  qed
qed

lemma updateWalletBalance_getWallet:
  assumes "keyed w_id (wallets s)" and "getWallet s u = Some w" and "0 \<le> w_balance w + d"
  shows "getWallet (snd (updateWalletBalance u d s)) v
         = (if v = u then Some (w\<lparr>w_balance := w_balance w + d\<rparr>) else getWallet s v)"
  using assms find_update_wallet[of "wallets s" u w v "w_balance w + d"]
  by (simp add: updateWalletBalance_def getWallet_def Let_def)

lemma gameMatches_createTransaction [simp]:
  "gameMatches (snd (createTransaction u a ty st c now s)) = gameMatches s"
  by (simp add: createTransaction_def Let_def)

lemma gameMatches_updateWalletBalance [simp]:
  "gameMatches (snd (updateWalletBalance u d s)) = gameMatches s"
  by (simp add: updateWalletBalance_def Let_def split: option.splits)

lemma gameMatches_updatePlayerMatchStatus [simp]:
  "gameMatches (snd (updatePlayerMatchStatus i st s)) = gameMatches s"
  by (simp add: updatePlayerMatchStatus_def Let_def split: option.splits)

lemma gameMatches_updatePlayerStatuses [simp]:
  "gameMatches (updatePlayerStatuses ps w s) = gameMatches s"
  by (induction ps arbitrary: s) (simp_all add: Let_def)

lemma transactions_updateWalletBalance [simp]:
  "transactions (snd (updateWalletBalance u d s)) = transactions s"
  by (simp add: updateWalletBalance_def Let_def split: option.splits)

lemma transactions_updatePlayerMatchStatus [simp]:
  "transactions (snd (updatePlayerMatchStatus i st s)) = transactions s"
  by (simp add: updatePlayerMatchStatus_def Let_def split: option.splits)

lemma transactions_updatePlayerStatuses [simp]:
  "transactions (updatePlayerStatuses ps w s) = transactions s"
  by (induction ps arbitrary: s) (simp_all add: Let_def)

lemma transactions_updateGameMatch [simp]:
  "transactions (snd (updateGameMatch i f s)) = transactions s"
  by (simp add: updateGameMatch_def Let_def split: option.splits)

lemma transactionIdCounter_updateWalletBalance [simp]:
  "transactionIdCounter (snd (updateWalletBalance u d s)) = transactionIdCounter s"
  by (simp add: updateWalletBalance_def Let_def split: option.splits)

lemma transactionIdCounter_updatePlayerMatchStatus [simp]:
  "transactionIdCounter (snd (updatePlayerMatchStatus i st s)) = transactionIdCounter s"
  by (simp add: updatePlayerMatchStatus_def Let_def split: option.splits)

lemma transactionIdCounter_updatePlayerStatuses [simp]:
  "transactionIdCounter (updatePlayerStatuses ps w s) = transactionIdCounter s"
  by (induction ps arbitrary: s) (simp_all add: Let_def)

lemma transactionIdCounter_updateGameMatch [simp]:
  "transactionIdCounter (snd (updateGameMatch i f s)) = transactionIdCounter s"
  by (simp add: updateGameMatch_def Let_def split: option.splits)

lemma completeMatch_rejects:
  "getGameMatch s matchId = Some m \<Longrightarrow> gm_status m \<noteq> in_progress \<Longrightarrow>
   completeMatch matchId w now s = (Fail MatchNotInProgress, s)"
  by (simp add: completeMatch_def)

lemma completeMatch_Ok_status:
  assumes "completeMatch matchId winnerId now s = (Ok, s')"
  shows "\<exists>m. getGameMatch s' matchId = Some m \<and> gm_status m = completed \<and> gm_winnerId m = Some winnerId"
  using assms
  by (auto simp: completeMatch_def getGameMatch_def Let_def updateGameMatch_def update_conv'
      split: option.splits if_splits)

text \<open>
  C6. Once \<^const>\<open>completeMatch\<close> has succeeded on a match, any further call for that
  match (whatever winner it names, whenever it comes) is rejected because the match
  is no longer in progress, and it returns the very store it was given: no wallet,
  transaction, match or player row differs.
\<close>

theorem complete_twice_rejected:
  assumes "completeMatch matchId winnerId now s = (Ok, s')"
  shows "completeMatch matchId winnerId2 now2 s' = (Fail MatchNotInProgress, s')"
proof -
  from completeMatch_Ok_status[OF assms] obtain m
    where "getGameMatch s' matchId = Some m" "gm_status m = completed" by blast
  then show ?thesis by (simp add: completeMatch_rejects)
qed


theorem complete_twice_rejected_witness:
  "fst (completeMatch 1 3 50 arena) = Ok
   \<and> completeMatch 1 1 60 (snd (completeMatch 1 3 50 arena))
       = (Fail MatchNotInProgress, snd (completeMatch 1 3 50 arena))"
proof -
  have ok: "fst (completeMatch 1 3 50 arena) = Ok" by code_simp
  then have "completeMatch 1 3 50 arena = (Ok, snd (completeMatch 1 3 50 arena))"
    by (metis prod.collapse)
  from complete_twice_rejected[OF this, of 1 60] ok show ?thesis by simp
qed



section \<open>The automatic start and the start by request\<close>

lemma join_lobby: "joinMatch 1 3 10 (lobby 1000) = (Ok, joined_store 1000, Some race_timer)"
  by code_simp

text \<open>
  C2. The entry fee is to be taken once per player and match. The handler of
  \<^verbatim>\<open>POST /api/matches/:id/start\<close> refuses a match that is not waiting, but the body
  of the timer that the join handler schedules has no such check. Bob joins match 1
  (the timer is scheduled), bob starts the match by request (800 left of 1000), and
  the timer fires: bob is debited a second time for the same match (600 left, two
  \<^verbatim>\<open>game_entry\<close> transactions of -200).
\<close>

theorem auto_start_debits_again:
  "joinMatch 1 3 10 (lobby 1000) = (Ok, joined_store 1000, Some race_timer)
   \<and> fst (startMatch 1 3 20 (joined_store 1000)) = Ok
   \<and> balance_of (joined_store 1000) 3 = Some 1000
   \<and> balance_of arena 3 = Some 800
   \<and> entry_fees arena 3 = [- 200]
   \<and> balance_of (fst (autoStart race_timer 30 arena)) 3 = Some 600
   \<and> entry_fees (fst (autoStart race_timer 30 arena)) 3 = [- 200, - 200]"
  by code_simp

text \<open>
  C3. The completed transactions of a user are to sum to the balance. Bob's wallet
  holds his approved deposit of 200. He joins match 1 (the timer is scheduled) and
  withdraws the 200; books and balance agree at 0. The timer fires: its debit of 200
  is rejected by the store, the balance stays 0, yet the timer body records a completed
  \<^verbatim>\<open>game_entry\<close> of -200, and the completed amounts now sum to -200.
\<close>

theorem auto_start_records_rejected_debit:
  "joinMatch 1 3 10 (lobby 200) = (Ok, joined_store 200, Some race_timer)
   \<and> balance_of (lobby 200) 3 = Some 200 \<and> completedSum (lobby 200) 3 = 200
   \<and> fst (withdraw 3 200 20 (joined_store 200)) = Ok
   \<and> balance_of (snd (withdraw 3 200 20 (joined_store 200))) 3 = Some 0
   \<and> completedSum (snd (withdraw 3 200 20 (joined_store 200))) 3 = 0
   \<and> fst (updateWalletBalance 3 (- 200) (snd (withdraw 3 200 20 (joined_store 200)))) = None
   \<and> balance_of (fst (autoStart race_timer 30 (snd (withdraw 3 200 20 (joined_store 200))))) 3
       = Some 0
   \<and> completedSum (fst (autoStart race_timer 30 (snd (withdraw 3 200 20 (joined_store 200))))) 3
       = - 200"
  by code_simp

text \<open>
  C4. A failed start is to leave no player charged. Bob joins match 1 with 200 and
  then withdraws 150. Alice requests the start: the loop debits alice and the
  automated opponent, finds bob short, and the handler answers with that failure.
  Alice and the opponent stay charged 200 each, each with a \<^verbatim>\<open>game_entry\<close>
  transaction, and the match is still waiting.
\<close>

theorem start_fails_after_charging:
  "fst (withdraw 3 150 15 (joined_store 200)) = Ok
   \<and> balance_of (snd (withdraw 3 150 15 (joined_store 200))) 1 = Some 1000
   \<and> balance_of (snd (withdraw 3 150 15 (joined_store 200))) 2 = Some 10000
   \<and> fst (startMatch 1 1 20 (snd (withdraw 3 150 15 (joined_store 200))))
       = Fail (PlayerLowBalance 3)
   \<and> balance_of (snd (startMatch 1 1 20 (snd (withdraw 3 150 15 (joined_store 200))))) 1
       = Some 800
   \<and> balance_of (snd (startMatch 1 1 20 (snd (withdraw 3 150 15 (joined_store 200))))) 2
       = Some 9800
   \<and> entry_fees (snd (startMatch 1 1 20 (snd (withdraw 3 150 15 (joined_store 200))))) 1
       = [- 200]
   \<and> entry_fees (snd (startMatch 1 1 20 (snd (withdraw 3 150 15 (joined_store 200))))) 2
       = [- 200]
   \<and> map_option gm_status
        (getGameMatch (snd (startMatch 1 1 20 (snd (withdraw 3 150 15 (joined_store 200))))) 1)
       = Some waiting"
  by code_simp

section \<open>The reward schedule of a subscription\<close>

lemma below_snoc: "below c al \<Longrightarrow> below (Suc c) (al @ [(c, v)])"
  by (auto simp: below_def list_all_iff)

lemma below_fresh: "below c al \<Longrightarrow> c \<notin> fst ` set al"
  by (auto simp: below_def list_all_iff)


lemma length_upto_nat: "length [1 .. d] = nat d"
  by simp





lemma subscriptionRewards_updateWalletBalance [simp]:
  "subscriptionRewards (snd (updateWalletBalance u d s)) = subscriptionRewards s"
  by (simp add: updateWalletBalance_def Let_def split: option.splits)

lemma subscriptionRewards_createTransaction [simp]:
  "subscriptionRewards (snd (createTransaction u a ty st c now s)) = subscriptionRewards s"
  by (simp add: createTransaction_def Let_def)

lemma subscriptionRewards_addSubscription [simp]:
  "subscriptionRewards (snd (addSubscription u d now s)) = subscriptionRewards s"
  by (simp add: addSubscription_def Let_def split: option.splits)

lemma subscriptionRewardIdCounter_updateWalletBalance [simp]:
  "subscriptionRewardIdCounter (snd (updateWalletBalance u d s)) = subscriptionRewardIdCounter s"
  by (simp add: updateWalletBalance_def Let_def split: option.splits)

lemma subscriptionRewardIdCounter_createTransaction [simp]:
  "subscriptionRewardIdCounter (snd (createTransaction u a ty st c now s)) = subscriptionRewardIdCounter s"
  by (simp add: createTransaction_def Let_def)

lemma subscriptionRewardIdCounter_addSubscription [simp]:
  "subscriptionRewardIdCounter (snd (addSubscription u d now s)) = subscriptionRewardIdCounter s"
  by (simp add: addSubscription_def Let_def split: option.splits)

lemma subscriptionIdCounter_updateWalletBalance [simp]:
  "subscriptionIdCounter (snd (updateWalletBalance u d s)) = subscriptionIdCounter s"
  by (simp add: updateWalletBalance_def Let_def split: option.splits)

lemma subscriptionIdCounter_createTransaction [simp]:
  "subscriptionIdCounter (snd (createTransaction u a ty st c now s)) = subscriptionIdCounter s"
  by (simp add: createTransaction_def Let_def)











section \<open>Paying the rewards of a date\<close>

lemma subscriptions_updateWalletBalance [simp]:
  "subscriptions (snd (updateWalletBalance u d s)) = subscriptions s"
  by (simp add: updateWalletBalance_def Let_def split: option.splits)

lemma subscriptions_createTransaction [simp]:
  "subscriptions (snd (createTransaction u a ty st c now s)) = subscriptions s"
  by (simp add: createTransaction_def Let_def)

lemma subscriptions_updateRewardStatus [simp]:
  "subscriptions (snd (updateRewardStatus i st p now s)) = subscriptions s"
  by (simp add: updateRewardStatus_def Let_def split: option.splits)

lemma transactions_updateRewardStatus [simp]:
  "transactions (snd (updateRewardStatus i st p now s)) = transactions s"
  by (simp add: updateRewardStatus_def Let_def split: option.splits)

lemma transactionIdCounter_updateRewardStatus [simp]:
  "transactionIdCounter (snd (updateRewardStatus i st p now s)) = transactionIdCounter s"
  by (simp add: updateRewardStatus_def Let_def split: option.splits)

lemma getWallet_cong: "wallets s' = wallets s \<Longrightarrow> getWallet s' u = getWallet s u"
  by (simp add: getWallet_def)

lemma map_key_id:
  "k \<notin> fst ` set al \<Longrightarrow> map (\<lambda>(k', y). if k' = k then (k', f y) else (k', y)) al = al"
  by (induction al) auto

lemma update_as_map:
  "distinct (map fst al) \<Longrightarrow>
   (case map_of al k of None \<Rightarrow> al | Some x \<Rightarrow> AList.update k (f x) al)
   = map (\<lambda>(k', y). if k' = k then (k', f y) else (k', y)) al"
  by (induction al) (auto simp: map_key_id split: option.splits simp del: map_of_eq_Some_iff)

lemma subscriptionRewards_updateRewardStatus:
  "distinct (map fst (subscriptionRewards s)) \<Longrightarrow>
   subscriptionRewards (snd (updateRewardStatus i paid None now s))
   = map (\<lambda>(k, y). if k = i then (k, y\<lparr>r_status := paid, r_paidAt := Some now\<rparr>) else (k, y))
       (subscriptionRewards s)"
  using update_as_map[of "subscriptionRewards s" i "\<lambda>y. y\<lparr>r_status := paid, r_paidAt := Some now\<rparr>"]
  by (simp add: updateRewardStatus_def Let_def split: option.splits del: map_of_eq_Some_iff)

lemma map_fst_mark:
  "map fst (map (\<lambda>(k, y). if Q k then (k, f y) else (k, y)) al) = map fst al"
  by (induction al) auto

lemma processLoop_step:
  "processLoop (r # rs) now (c, s)
   = processLoop rs now
       (c + 1, snd (updateRewardStatus (r_id r) paid None now
                 (snd (createTransaction (r_userId r) (r_amount r) subscription_reward tx_completed
                         (Some 0) now (snd (updateWalletBalance (r_userId r) (r_amount r) s))))))"
  by (simp add: Let_def)

lemma processLoop_rewards:
  "distinct (map fst (subscriptionRewards s)) \<Longrightarrow>
   subscriptionRewards (snd (processLoop rs now (c, s)))
   = map (\<lambda>(k, y). if k \<in> r_id ` set rs then (k, y\<lparr>r_status := paid, r_paidAt := Some now\<rparr>)
                    else (k, y))
       (subscriptionRewards s)"
proof (induction rs arbitrary: c s)
  case Nil
  then show ?case by (simp add: case_prod_unfold)
next
  case (Cons r rs)
  let ?s3 = "snd (updateRewardStatus (r_id r) paid None now
                 (snd (createTransaction (r_userId r) (r_amount r) subscription_reward tx_completed
                         (Some 0) now (snd (updateWalletBalance (r_userId r) (r_amount r) s)))))"
  have r3: "subscriptionRewards ?s3
            = map (\<lambda>(k, y). if k = r_id r then (k, y\<lparr>r_status := paid, r_paidAt := Some now\<rparr>)
                            else (k, y)) (subscriptionRewards s)"
    using Cons.prems by (simp add: subscriptionRewards_updateRewardStatus)
  have d3: "distinct (map fst (subscriptionRewards ?s3))"
    unfolding r3 using Cons.prems by (simp only: map_fst_mark)
  show ?case
    unfolding processLoop_step Cons.IH[OF d3] r3
    by (auto simp: case_prod_unfold)
qed

lemma processLoop_subscriptions [simp]:
  "subscriptions (snd (processLoop rs now (c, s))) = subscriptions s"
  by (induction rs arbitrary: c s) (simp_all add: Let_def)

lemma processLoop_count: "fst (processLoop rs now (c, s)) = c + length rs"
  by (induction rs arbitrary: c s) (simp_all add: Let_def)

lemma processLoop_transactions:
  "below (transactionIdCounter s) (transactions s) \<Longrightarrow>
   transactions (snd (processLoop rs now (c, s)))
   = transactions s @
       map (\<lambda>(i, r). (i, \<lparr> t_id = i, t_userId = r_userId r, t_amount = r_amount r,
                             t_type = subscription_reward, t_status = tx_completed,
                             t_commissionAmount = Some 0, t_createdAt = now \<rparr>))
         (zip [transactionIdCounter s ..< transactionIdCounter s + length rs] rs)"
proof (induction rs arbitrary: c s)
  case Nil
  then show ?case by simp
next
  case (Cons r rs)
  let ?tc = "transactionIdCounter s"
  let ?tx = "\<lparr> t_id = ?tc, t_userId = r_userId r, t_amount = r_amount r,
                             t_type = subscription_reward, t_status = tx_completed,
                             t_commissionAmount = Some 0, t_createdAt = now \<rparr>"
  let ?s3 = "snd (updateRewardStatus (r_id r) paid None now
                 (snd (createTransaction (r_userId r) (r_amount r) subscription_reward tx_completed
                         (Some 0) now (snd (updateWalletBalance (r_userId r) (r_amount r) s)))))"
  have t3: "transactions ?s3 = transactions s @ [(?tc, ?tx)]"
    using Cons.prems by (simp add: createTransaction_def Let_def update_fresh below_fresh)
  have c3: "transactionIdCounter ?s3 = Suc ?tc"
    by (simp add: createTransaction_def Let_def)
  have b3: "below (transactionIdCounter ?s3) (transactions ?s3)"
    unfolding t3 c3 using Cons.prems by (rule below_snoc)
  have u: "[?tc ..< ?tc + length (r # rs)] = ?tc # [Suc ?tc ..< Suc ?tc + length rs]"
    using upt_conv_Cons[of ?tc "?tc + Suc (length rs)"] by simp
  show ?case
    unfolding processLoop_step Cons.IH[OF b3] t3 c3 u by simp
qed

lemma keyed_updateWalletBalance:
  "keyed w_id (wallets s) \<Longrightarrow> keyed w_id (wallets (snd (updateWalletBalance u d s)))"
  by (auto simp: updateWalletBalance_def Let_def keyed_def distinct_update
      intro!: list_all_update split: option.splits)

lemma processLoop_wallet:
  assumes "keyed w_id (wallets s)" and "wallets_nonneg s"
    and "list_all (\<lambda>r. 0 \<le> r_amount r) rs" and "getWallet s u = Some w"
  shows "getWallet (snd (processLoop rs now (c, s))) u
         = Some (w\<lparr>w_balance := w_balance w
                    + sum_list (map r_amount (filter (\<lambda>r. r_userId r = u) rs))\<rparr>)"
  using assms
proof (induction rs arbitrary: c s w)
  case Nil
  then show ?case by simp
next
  case (Cons r rs)
  let ?s1 = "snd (updateWalletBalance (r_userId r) (r_amount r) s)"
  let ?s3 = "snd (updateRewardStatus (r_id r) paid None now
                 (snd (createTransaction (r_userId r) (r_amount r) subscription_reward tx_completed
                         (Some 0) now ?s1)))"
  have w3: "wallets ?s3 = wallets ?s1" by simp
  have k3: "keyed w_id (wallets ?s3)"
    unfolding w3 using Cons.prems(1) by (rule keyed_updateWalletBalance)
  have n3: "wallets_nonneg ?s3"
    using Cons.prems(2) by (simp add: nonneg_updateWalletBalance)
  have a3: "list_all (\<lambda>r. 0 \<le> r_amount r) rs" and a0: "0 \<le> r_amount r"
    using Cons.prems(3) by simp_all
  have g1: "getWallet ?s1 u
            = Some (if r_userId r = u then w\<lparr>w_balance := w_balance w + r_amount r\<rparr> else w)"
  proof (cases "getWallet s (r_userId r)")
    case None
    then have "?s1 = s" by (simp add: updateWalletBalance_def)
    moreover from None Cons.prems(4) have "r_userId r \<noteq> u" by auto
    ultimately show ?thesis using Cons.prems(4) by simp
  next
    case (Some w0)
    with Cons.prems(2) have "0 \<le> w_balance w0" by (rule getWallet_nonneg)
    with a0 have "0 \<le> w_balance w0 + r_amount r" by simp
    from updateWalletBalance_getWallet[OF Cons.prems(1) Some this, of u] Some Cons.prems(4)
    show ?thesis by auto
  qed
  have g3: "getWallet ?s3 u
            = Some (if r_userId r = u then w\<lparr>w_balance := w_balance w + r_amount r\<rparr> else w)"
    using getWallet_cong[OF w3, of u] g1 by simp
  show ?case
    unfolding processLoop_step Cons.IH[OF k3 n3 a3 g3]
    by (simp add: add.assoc)
qed

lemma getPendingRewardsByDate_day:
  "startOfDay d2 = startOfDay d \<Longrightarrow> getPendingRewardsByDate s d2 = getPendingRewardsByDate s d"
  by (simp add: getPendingRewardsByDate_def)

lemma getPendingRewardsByDate_after:
  assumes "keyed r_id (subscriptionRewards s)" and "rs = getPendingRewardsByDate s d"
  shows "getPendingRewardsByDate (snd (processLoop rs now (c, s))) d = []"
proof -
  let ?P = "\<lambda>reward. case map_of (subscriptions s) (r_subscriptionId reward) of
                None \<Rightarrow> False
              | Some subscription \<Rightarrow>
                  r_status reward = pending \<and>
                  startOfDay (addDays (sub_startDate subscription) (r_day reward - 1)) = startOfDay d"
  let ?G = "\<lambda>(k, y). if k \<in> r_id ` set rs then (k, y\<lparr>r_status := paid, r_paidAt := Some now\<rparr>)
                    else (k, y)"
  let ?s1 = "snd (processLoop rs now (c, s))"
  have sel: "getPendingRewardsByDate t d = filter ?P (map snd (subscriptionRewards t))"
    if "subscriptions t = subscriptions s" for t
    unfolding getPendingRewardsByDate_def Let_def that by simp
  have rs: "rs = filter ?P (map snd (subscriptionRewards s))"
    unfolding assms(2) by (rule sel) simp
  have d: "distinct (map fst (subscriptionRewards s))" using assms(1) by (simp add: keyed_def)
  have key: "\<not> ?P x" if x: "x \<in> set (map snd (map ?G (subscriptionRewards s)))" for x
  proof -
    from x obtain k y where mem: "(k, y) \<in> set (subscriptionRewards s)"
      and xe: "x = (if k \<in> r_id ` set rs then y\<lparr>r_status := paid, r_paidAt := Some now\<rparr> else y)"
      by auto
    show ?thesis
    proof (cases "k \<in> r_id ` set rs")
      case True
      with xe have "r_status x = paid" by simp
      then show ?thesis by (simp split: option.splits)
    next
      case False
      from mem assms(1) have "r_id y = k" by (auto simp: keyed_def list_all_iff)
      with False have "y \<notin> set rs" by auto
      moreover from mem have "y \<in> set (map snd (subscriptionRewards s))" by force
      ultimately have ny: "\<not> ?P y" unfolding rs by simp
      from False xe have xy: "x = y" by simp
      show ?thesis unfolding xy by (rule ny)
    qed
  qed
  have "getPendingRewardsByDate ?s1 d = filter ?P (map snd (subscriptionRewards ?s1))"
    by (rule sel) simp
  also have "\<dots> = filter ?P (map snd (map ?G (subscriptionRewards s)))"
    by (simp only: processLoop_rewards[OF d])
  also have "\<dots> = []"
    unfolding filter_empty_conv using key by blast
  finally show ?thesis .
qed

lemma processLoop_marks:
  assumes "keyed r_id (subscriptionRewards s)" and "set rs \<subseteq> set (map snd (subscriptionRewards s))"
  shows "list_all (\<lambda>r. map_of (subscriptionRewards (snd (processLoop rs now (c, s)))) (r_id r)
                         = Some (r\<lparr>r_status := paid, r_paidAt := Some now\<rparr>)) rs"
proof -
  have d: "distinct (map fst (subscriptionRewards s))" using assms(1) by (simp add: keyed_def)
  let ?G = "\<lambda>(k, y). if k \<in> r_id ` set rs then (k, y\<lparr>r_status := paid, r_paidAt := Some now\<rparr>)
                    else (k, y)"
  have d': "distinct (map fst (map ?G (subscriptionRewards s)))"
    using d by (simp only: map_fst_mark)
  have "map_of (map ?G (subscriptionRewards s)) (r_id r) = Some (r\<lparr>r_status := paid, r_paidAt := Some now\<rparr>)"
    if r: "r \<in> set rs" for r
  proof -
    from r assms(2) obtain k where mem: "(k, r) \<in> set (subscriptionRewards s)" by force
    with assms(1) have "r_id r = k" by (auto simp: keyed_def list_all_iff)
    with mem r have "(r_id r, r\<lparr>r_status := paid, r_paidAt := Some now\<rparr>) \<in> set (map ?G (subscriptionRewards s))"
      by force
    with d' show ?thesis by (rule map_of_is_SomeI)
  qed
  then show ?thesis by (simp add: processLoop_rewards[OF d] list_all_iff)
qed

lemma processSubscriptionRewards_loop:
  "processSubscriptionRewards (Some d) now s = processLoop (getPendingRewardsByDate s d) now (0, s)"
  by (cases "getPendingRewardsByDate s d") (simp_all add: processSubscriptionRewards_def)

lemma getPendingRewardsByDate_sound:
  "list_all (\<lambda>r. r_status r = pending
               \<and> (case map_of (subscriptions s) (r_subscriptionId r) of
                     None \<Rightarrow> False
                   | Some sub \<Rightarrow>
                       startOfDay (addDays (sub_startDate sub) (r_day r - 1)) = startOfDay d))
     (getPendingRewardsByDate s d)"
  by (auto simp: getPendingRewardsByDate_def Let_def list_all_iff split: option.splits)

lemma getPendingRewardsByDate_subset:
  "set (getPendingRewardsByDate s d) \<subseteq> set (map snd (subscriptionRewards s))"
  by (auto simp: getPendingRewardsByDate_def Let_def)

text \<open>
  C9. On a store whose reward and wallet tables are keyed by their ids, whose next
  transaction id is new, and whose balances and due reward amounts are at least 0: the
  rewards selected for a date are pending rows whose subscription starts \<open>day - 1\<close>
  days before that calendar date, and all are processed; after the run each of them
  is stored as paid, exactly one completed \<^verbatim>\<open>subscription_reward\<close> transaction per
  selected reward has been appended, and every wallet has grown by the sum of its
  user's selected rewards. A second run for the same calendar date then selects
  nothing and returns the store unchanged, so no reward is paid twice.
\<close>

theorem rewards_paid_once:
  assumes "keyed r_id (subscriptionRewards s)"
    and "below (transactionIdCounter s) (transactions s)"
    and "keyed w_id (wallets s)" and "wallets_nonneg s"
    and "rs = getPendingRewardsByDate s d"
    and "list_all (\<lambda>r. 0 \<le> r_amount r) rs"
    and "s1 = snd (processSubscriptionRewards (Some d) now s)"
    and "startOfDay d2 = startOfDay d"
  shows "list_all (\<lambda>r. r_status r = pending
                    \<and> (case map_of (subscriptions s) (r_subscriptionId r) of
                          None \<Rightarrow> False
                        | Some sub \<Rightarrow>
                            startOfDay (addDays (sub_startDate sub) (r_day r - 1)) = startOfDay d))
           rs
    \<and> fst (processSubscriptionRewards (Some d) now s) = length rs
    \<and> list_all (\<lambda>r. map_of (subscriptionRewards s1) (r_id r)
                      = Some (r\<lparr>r_status := paid, r_paidAt := Some now\<rparr>)) rs
    \<and> transactions s1 = transactions s @
         map (\<lambda>(i, r). (i, \<lparr> t_id = i, t_userId = r_userId r, t_amount = r_amount r,
                               t_type = subscription_reward, t_status = tx_completed,
                               t_commissionAmount = Some 0, t_createdAt = now \<rparr>))
           (zip [transactionIdCounter s ..< transactionIdCounter s + length rs] rs)
    \<and> (\<forall>u w. getWallet s u = Some w \<longrightarrow>
          getWallet s1 u
          = Some (w\<lparr>w_balance := w_balance w
                     + sum_list (map r_amount (filter (\<lambda>r. r_userId r = u) rs))\<rparr>))
    \<and> getPendingRewardsByDate s1 d2 = []
    \<and> processSubscriptionRewards (Some d2) now2 s1 = (0, s1)"
proof -
  have s1: "s1 = snd (processLoop rs now (0, s))"
    using assms(5,7) by (simp add: processSubscriptionRewards_loop)
  have a: "list_all (\<lambda>r. r_status r = pending
                    \<and> (case map_of (subscriptions s) (r_subscriptionId r) of
                          None \<Rightarrow> False
                        | Some sub \<Rightarrow>
                            startOfDay (addDays (sub_startDate sub) (r_day r - 1)) = startOfDay d))
           rs"
    unfolding assms(5) by (rule getPendingRewardsByDate_sound)
  have b: "fst (processSubscriptionRewards (Some d) now s) = length rs"
    using assms(5) by (simp add: processSubscriptionRewards_loop processLoop_count)
  have sub: "set rs \<subseteq> set (map snd (subscriptionRewards s))"
    unfolding assms(5) by (rule getPendingRewardsByDate_subset)
  have c: "list_all (\<lambda>r. map_of (subscriptionRewards s1) (r_id r)
                      = Some (r\<lparr>r_status := paid, r_paidAt := Some now\<rparr>)) rs"
    unfolding s1 using assms(1) sub by (rule processLoop_marks)
  have t: "transactions s1 = transactions s @
         map (\<lambda>(i, r). (i, \<lparr> t_id = i, t_userId = r_userId r, t_amount = r_amount r,
                               t_type = subscription_reward, t_status = tx_completed,
                               t_commissionAmount = Some 0, t_createdAt = now \<rparr>))
           (zip [transactionIdCounter s ..< transactionIdCounter s + length rs] rs)"
    unfolding s1 using assms(2) by (rule processLoop_transactions)
  have w: "\<forall>u w. getWallet s u = Some w \<longrightarrow>
          getWallet s1 u
          = Some (w\<lparr>w_balance := w_balance w
                     + sum_list (map r_amount (filter (\<lambda>r. r_userId r = u) rs))\<rparr>)"
    unfolding s1 using processLoop_wallet[OF assms(3,4,6)] by blast
  have e: "getPendingRewardsByDate s1 d = []"
    unfolding s1 using assms(1,5) by (rule getPendingRewardsByDate_after)
  then have e2: "getPendingRewardsByDate s1 d2 = []"
    using getPendingRewardsByDate_day[OF assms(8)] by simp
  then have f: "processSubscriptionRewards (Some d2) now2 s1 = (0, s1)"
    by (simp add: processSubscriptionRewards_def)
  from a b c t w e2 f show ?thesis by blast
qed

lemma paying_store_facts:
  "keyed r_id (subscriptionRewards paying_store)"
  "below (transactionIdCounter paying_store) (transactions paying_store)"
  "keyed w_id (wallets paying_store)"
  "wallets_nonneg paying_store"
  "list_all (\<lambda>r. 0 \<le> r_amount r) (getPendingRewardsByDate paying_store 100)"
  "startOfDay 5000 = startOfDay 100"
  "map r_id (getPendingRewardsByDate paying_store 100) = [1, 3]"
  "getWallet paying_store 1 = Some \<lparr> w_id = 1, w_userId = 1, w_balance = 500, w_createdAt = 1 \<rparr>"
  by code_simp+

theorem rewards_paid_once_witness:
  "keyed r_id (subscriptionRewards paying_store)
   \<and> below (transactionIdCounter paying_store) (transactions paying_store)
   \<and> keyed w_id (wallets paying_store) \<and> wallets_nonneg paying_store
   \<and> list_all (\<lambda>r. 0 \<le> r_amount r) (getPendingRewardsByDate paying_store 100)
   \<and> startOfDay 5000 = startOfDay 100
   \<and> map r_id (getPendingRewardsByDate paying_store 100) = [1, 3]
   \<and> fst (processSubscriptionRewards (Some 100) 200 paying_store) = 2
   \<and> balance_of paying_store 1 = Some 500
   \<and> balance_of (snd (processSubscriptionRewards (Some 100) 200 paying_store)) 1 = Some 1407
   \<and> processSubscriptionRewards (Some 5000) 6000
        (snd (processSubscriptionRewards (Some 100) 200 paying_store))
       = (0, snd (processSubscriptionRewards (Some 100) 200 paying_store))"
proof -
  have l: "length (getPendingRewardsByDate paying_store 100) = 2"
    using paying_store_facts(7) by (metis length_map length_Cons list.size(3) One_nat_def Suc_1)
  have bal: "balance_of paying_store 1 = Some 500"
    "balance_of (snd (processSubscriptionRewards (Some 100) 200 paying_store)) 1 = Some 1407"
    by code_simp+
  show ?thesis
    using rewards_paid_once[OF paying_store_facts(1-4) refl paying_store_facts(5) refl
        paying_store_facts(6), of 200 6000]
      paying_store_facts l bal
    by simp
qed

section \<open>The id discipline holds in every reachable store\<close>

text \<open>
  The theorems on completion and on reward payment assume tables keyed by their ids and
  a fresh next id. Every store that the operations reach from the empty one is so.
\<close>

lemma keyed_update: "keyed idf al \<Longrightarrow> idf v = k \<Longrightarrow> keyed idf (AList.update k v al)"
  by (auto simp: keyed_def distinct_update intro!: list_all_update)

lemma below_update_next: "below c al \<Longrightarrow> below (Suc c) (AList.update c v al)"
  unfolding below_def by (rule list_all_update) (auto simp: list_all_iff)

lemma below_update_same: "below c al \<Longrightarrow> k < c \<Longrightarrow> below c (AList.update k v al)"
  unfolding below_def by (rule list_all_update) (auto simp: list_all_iff)

lemma keyed_mem: "keyed idf al \<Longrightarrow> (k, v) \<in> set al \<Longrightarrow> idf v = k"
  by (auto simp: keyed_def list_all_iff)

lemma below_mem: "below c al \<Longrightarrow> (k, v) \<in> set al \<Longrightarrow> k < c"
  by (auto simp: below_def list_all_iff)

lemma store_wf_empty: "store_wf emptyStorage"
  by (simp add: store_wf_def emptyStorage_def keyed_def below_def)

lemma wf_createUser [simp]: "store_wf (snd (createUser n p s)) = store_wf s"
  by (simp add: createUser_def Let_def store_wf_def)

lemma wf_addRewardPoints [simp]: "store_wf (snd (addRewardPoints u p s)) = store_wf s"
  by (simp add: addRewardPoints_def Let_def store_wf_def split: option.splits)

lemma wf_addSubscription [simp]: "store_wf (snd (addSubscription u d now s)) = store_wf s"
  by (simp add: addSubscription_def Let_def store_wf_def split: option.splits)

lemma wf_createGameMatch [simp]: "store_wf (snd (createGameMatch g e st now s)) = store_wf s"
  by (simp add: createGameMatch_def Let_def store_wf_def)

lemma wf_updateGameMatch [simp]: "store_wf (snd (updateGameMatch i f s)) = store_wf s"
  by (simp add: updateGameMatch_def Let_def store_wf_def split: option.splits)

lemma wf_addPlayerToMatch [simp]: "store_wf (snd (addPlayerToMatch m u st now s)) = store_wf s"
  by (simp add: addPlayerToMatch_def Let_def store_wf_def)

lemma wf_updatePlayerMatchStatus [simp]:
  "store_wf (snd (updatePlayerMatchStatus i st s)) = store_wf s"
  by (simp add: updatePlayerMatchStatus_def Let_def store_wf_def split: option.splits)

lemma wf_updatePlayerStatuses [simp]: "store_wf (updatePlayerStatuses ps w s) = store_wf s"
  by (induction ps arbitrary: s) (simp_all add: Let_def)

lemma wf_createWallet: "store_wf s \<Longrightarrow> store_wf (snd (createWallet u b now s))"
  by (simp add: createWallet_def Let_def store_wf_def keyed_update below_update_next below_update_same)

lemma wf_createTransaction:
  "store_wf s \<Longrightarrow> store_wf (snd (createTransaction u a ty st c now s))"
  by (simp add: createTransaction_def Let_def store_wf_def keyed_update below_update_next below_update_same)

lemma wf_updateWalletBalance: "store_wf s \<Longrightarrow> store_wf (snd (updateWalletBalance u d s))"
proof (cases "getWallet s u")
  case None
  then show "store_wf s \<Longrightarrow> ?thesis" by (simp add: updateWalletBalance_def)
next
  case (Some w)
  assume wf: "store_wf s"
  from Some obtain k where mem: "(k, w) \<in> set (wallets s)"
    using find_snd_mem[of _ "wallets s" w] by (auto simp: getWallet_def)
  with wf have "w_id w = k" "k < walletIdCounter s"
    by (auto simp: store_wf_def dest: keyed_mem below_mem)
  with wf Some show ?thesis
    by (simp add: updateWalletBalance_def Let_def store_wf_def keyed_update below_update_next below_update_same)
qed

lemma wf_updateRewardStatus: "store_wf s \<Longrightarrow> store_wf (snd (updateRewardStatus i st p now s))"
proof (cases "map_of (subscriptionRewards s) i")
  case None
  then show "store_wf s \<Longrightarrow> ?thesis" by (simp add: updateRewardStatus_def)
next
  case (Some r)
  assume wf: "store_wf s"
  from Some have mem: "(i, r) \<in> set (subscriptionRewards s)" by (rule map_of_SomeD)
  with wf have "r_id r = i" "i < subscriptionRewardIdCounter s"
    by (auto simp: store_wf_def dest: keyed_mem below_mem)
  with wf Some show ?thesis
    by (simp add: updateRewardStatus_def Let_def store_wf_def keyed_update below_update_next below_update_same)
qed

lemma wf_createSubscriptionRewards:
  "store_wf s \<Longrightarrow> store_wf (createSubscriptionRewards ins now s)"
proof (induction ins arbitrary: s)
  case Nil
  then show ?case by simp
next
  case (Cons x ins)
  have "store_wf (s\<lparr> subscriptionRewards := AList.update (subscriptionRewardIdCounter s)
                   \<lparr> r_id = subscriptionRewardIdCounter s, r_subscriptionId = ir_subscriptionId x,
                     r_userId = ir_userId x, r_amount = ir_amount x,
                     r_day = ir_day x, r_status = ir_status x,
                     r_paidAt = None, r_createdAt = now \<rparr> (subscriptionRewards s),
               subscriptionRewardIdCounter := subscriptionRewardIdCounter s + 1 \<rparr>)"
    using Cons.prems by (simp add: store_wf_def keyed_update below_update_next below_update_same)
  from Cons.IH[OF this] show ?case by (simp add: Let_def)
qed

lemma wf_createGameSubscription:
  "store_wf s \<Longrightarrow> store_wf (snd (createGameSubscription u n a r d sd ed st now s))"
  by (simp add: createGameSubscription_def Let_def)
     (rule wf_createSubscriptionRewards, simp add: store_wf_def)

lemmas wf = wf_createWallet wf_createTransaction wf_updateWalletBalance wf_updateRewardStatus
  wf_createSubscriptionRewards wf_createGameSubscription

lemma wf_startLoop: "store_wf s \<Longrightarrow> store_wf (snd (startLoop ps e now s))"
  by (induction ps arbitrary: s) (auto simp: Let_def wf split: option.splits)

lemma wf_autoStartLoop: "store_wf s \<Longrightarrow> store_wf (autoStartLoop ps e now s)"
  by (induction ps arbitrary: s) (auto simp: Let_def wf)

lemma wf_processLoop: "store_wf (snd cs) \<Longrightarrow> store_wf (snd (processLoop rs now cs))"
  by (induction rs now cs rule: processLoop.induct) (auto simp: Let_def wf)

lemma wf_step: "store_wf s \<Longrightarrow> store_wf (step e s)"
proof (cases "(e, s)" rule: step.cases)
  case (7 matchId userId now s')
  assume "store_wf s"
  with 7 wf_startLoop[of s "getMatchPlayers s matchId" _ now] show ?thesis
    by (auto simp: startMatch_def Let_def wf split_def split: option.splits)
next
  case (10 transactionId now s')
  assume "store_wf s"
  with 10 wf_updateWalletBalance[of s] show ?thesis
    by (auto simp: approveDeposit_def Let_def wf split_def split: option.splits)
next
  case (11 userId amt now s')
  assume "store_wf s"
  with 11 wf_updateWalletBalance[of s] show ?thesis
    by (auto simp: withdraw_def Let_def wf split_def split: option.splits)
qed (auto simp: register_def createMatch_def aiJoin_def joinMatch_def autoStart_def
      autoComplete_def completeMatch_def depositRequest_def purchaseSubscription_def
      purchaseMonthly_def redeemPoints_def processSubscriptionRewards_def
      Let_def wf wf_autoStartLoop wf_processLoop split_def split: option.splits)

lemma wf_run: "store_wf s \<Longrightarrow> store_wf (run es s)"
  by (induction es arbitrary: s) (simp_all add: wf_step)

lemma wf_reachable: "store_wf (run es emptyStorage)"
  by (rule wf_run) (rule store_wf_empty)

end
